theory Spec2Isabelle
  imports Complex_Main
begin

section \<open>Strings as the scorer uses them\<close>

text \<open>
  Strings are byte lists. \<open>str_lower\<close> is Python's \<open>str.lower()\<close> on ASCII text: the
  letters \<open>A\<close>..\<open>Z\<close> move to \<open>a\<close>..\<open>z\<close>, every other byte stays.
  \<open>str_in w s\<close> is Python's \<open>w in s\<close> on strings (substring test).
\<close>

definition lower_char :: "char \<Rightarrow> char" where
  "lower_char c =
     (case map_of (zip ''ABCDEFGHIJKLMNOPQRSTUVWXYZ'' ''abcdefghijklmnopqrstuvwxyz'') c of
        Some l \<Rightarrow> l
      | None \<Rightarrow> c)"

definition str_lower :: "string \<Rightarrow> string" where
  "str_lower s = map lower_char s"

fun starts_with :: "string \<Rightarrow> string \<Rightarrow> bool" where
  "starts_with s [] = True"
| "starts_with [] (c # w) = False"
| "starts_with (x # s) (c # w) = (x = c \<and> starts_with s w)"

fun str_in :: "string \<Rightarrow> string \<Rightarrow> bool" where
  "str_in w [] = (w = [])"
| "str_in w (x # s) = (starts_with (x # s) w \<or> str_in w s)"

text \<open>\<open>any_word_in ws s\<close> is \<open>any(word in s for word in ws)\<close>.\<close>

definition any_word_in :: "string list \<Rightarrow> string \<Rightarrow> bool" where
  "any_word_in ws s = list_ex (\<lambda>word. str_in word s) ws"

section \<open>FactCheckService: rating buckets\<close>

text \<open>
  \<open>FactCheckService._rating_to_score\<close> (factcheck.py), branch by branch and in the
  order of the source. \<open>None\<close> is Python's \<open>None\<close>.
\<close>

definition rating_to_score :: "string \<Rightarrow> int option" where
  "rating_to_score rating =
     (let rating_lower = str_lower rating in
      if any_word_in [''true'', ''accurate'', ''correct'', ''verified''] rating_lower
        then Some 100
      else if any_word_in [''mostly true'', ''mostly accurate'', ''largely true''] rating_lower
        then Some 80
      else if any_word_in [''half true'', ''mixed'', ''partly'', ''partially''] rating_lower
        then Some 50
      else if any_word_in [''mostly false'', ''mostly inaccurate'', ''largely false''] rating_lower
        then Some 20
      else if any_word_in [''false'', ''fake'', ''incorrect'', ''wrong'', ''pants on fire'']
                rating_lower
        then Some 0
      else if any_word_in [''unverifiable'', ''unrated'', ''satire''] rating_lower
        then None
      else None)"

section \<open>FactCheckService: the claim-search response\<close>

text \<open>
  The response of the claim-search endpoint, with the fields the service reads. A field
  of type \<open>option\<close> is a key that may be absent from the JSON object; \<open>dict.get\<close>
  with a default is a \<open>case\<close> on it.
\<close>

record review_publisher =
  pub_name :: "string option"

record claim_review =
  textualRating :: "string option"
  cr_publisher :: "review_publisher option"
  cr_url :: "string option"

record api_claim =
  api_text :: "string option"
  api_claimant :: "string option"
  claimReview :: "claim_review list option"

record fc_data =
  data_claims :: "api_claim list option"

text \<open>One entry of \<open>processed_claims\<close>, and the dict the service returns.\<close>

record processed_claim =
  pc_claim_text :: string
  pc_claimant :: string
  pc_rating :: string
  pc_score :: "int option"
  pc_publisher :: string
  pc_review_url :: string

record veracity_result =
  veracity_score :: "int option"
  claims :: "processed_claim list"
  status :: "string option"

definition get_default :: "'a option \<Rightarrow> 'a \<Rightarrow> 'a" where
  "get_default field dflt = (case field of None \<Rightarrow> dflt | Some v \<Rightarrow> v)"

definition empty_review :: claim_review where
  "empty_review = \<lparr>textualRating = None, cr_publisher = None, cr_url = None\<rparr>"

definition empty_publisher :: review_publisher where
  "empty_publisher = \<lparr>pub_name = None\<rparr>"

text \<open>
  \<open>claim.get("claimReview", [{}])[0] if claim.get("claimReview") else {}\<close>: the first
  review when the key holds a non-empty list, the empty dict otherwise.
\<close>

definition first_review :: "api_claim \<Rightarrow> claim_review" where
  "first_review claim =
     (case claimReview claim of
        None \<Rightarrow> empty_review
      | Some [] \<Rightarrow> empty_review
      | Some (r # rs) \<Rightarrow> r)"

text \<open>
  \<open>round(total_score / scored_count)\<close> for \<open>scored_count > 0\<close>: Python 3 rounds a float
  to the nearest integer and a tie to the even one. The totals here are at most 500 and
  the counts at most 5, so the float quotient is either exactly a tie or at least 1/10
  away from one, and rounding the exact quotient gives the same integer.
\<close>

definition py_round_div :: "int \<Rightarrow> int \<Rightarrow> int" where
  "py_round_div total_score scored_count =
     (let q = total_score div scored_count; r = total_score mod scored_count in
      if 2 * r < scored_count then q
      else if 2 * r > scored_count then q + 1
      else if even q then q else q + 1)"

text \<open>
  The \<open>for claim in claims[:5]\<close> loop of \<open>_process_response\<close>, with its three
  accumulators \<open>processed_claims\<close>, \<open>total_score\<close> and \<open>scored_count\<close>.
\<close>

fun process_loop ::
  "api_claim list \<Rightarrow> processed_claim list \<Rightarrow> int \<Rightarrow> nat \<Rightarrow> processed_claim list \<times> int \<times> nat"
where
  "process_loop [] processed_claims total_score scored_count =
     (processed_claims, total_score, scored_count)"
| "process_loop (claim # rest) processed_claims total_score scored_count =
     (let claim_review = first_review claim;
          rating = get_default (textualRating claim_review) [];
          publisher =
            get_default (pub_name (get_default (cr_publisher claim_review) empty_publisher))
              ''Unknown'';
          url = get_default (cr_url claim_review) [];
          score = rating_to_score rating;
          total_score' = (case score of None \<Rightarrow> total_score | Some v \<Rightarrow> total_score + v);
          scored_count' = (case score of None \<Rightarrow> scored_count | Some v \<Rightarrow> scored_count + 1)
      in process_loop rest
           (processed_claims @
              [\<lparr>pc_claim_text = get_default (api_text claim) [],
                pc_claimant = get_default (api_claimant claim) ''Unknown'',
                pc_rating = rating,
                pc_score = score,
                pc_publisher = publisher,
                pc_review_url = url\<rparr>])
           total_score' scored_count')"

definition process_response :: "fc_data \<Rightarrow> veracity_result" where
  "process_response data =
     (let claims = get_default (data_claims data) [] in
      if claims = [] then
        \<lparr>veracity_score = None, claims = [], status = Some ''no_matching_claims''\<rparr>
      else
        (case process_loop (take 5 claims) [] 0 0 of
           (processed_claims, total_score, scored_count) \<Rightarrow>
             \<lparr>veracity_score =
                (if scored_count > 0 then Some (py_round_div total_score (int scored_count))
                 else None),
              claims = processed_claims,
              status = Some ''success''\<rparr>))"

section \<open>The surroundings of one event\<close>

text \<open>
  Everything outside the process is a parameter. \<open>exn\<close> is a raised Python
  \<open>Exception\<close>; a call that may raise returns \<open>exn + 'a\<close> with \<open>Inl\<close> the exception.
\<close>

datatype exn = Exception string

text \<open>
  What one HTTP GET to the claim-search endpoint does: a response with a status code and
  a decoded body, or an exception out of \<open>client.get\<close> or \<open>response.json()\<close>.
\<close>

datatype http_outcome = HttpResponse nat fc_data | HttpRaises exn

text \<open>
  The decoded output of the term extractor: any JSON value (numbers as integers, an
  object as the list of its members).
\<close>

datatype json =
    JNull
  | JBool bool
  | JNum int
  | JStr string
  | JList "json list"
  | JObj "(string \<times> json) list"

text \<open>The calls that leave the process, in the order they are issued.\<close>

datatype call =
    GenerateSummary string string
  | ExtractJargon string
  | HttpGet string string string

text \<open>The points of \<open>_save_to_database\<close> at which the database is contacted.\<close>

datatype db_op = QueryArticle | QuerySummary string | DeleteJargon | Commit

text \<open>
  \<open>api_key\<close> is \<open>settings.gemini_api_key\<close>. \<open>gemini_generate_summary content mode\<close>
  and \<open>gemini_extract_jargon content\<close> are the two calls of \<open>gemini_service\<close> with
  what they return or raise. \<open>http_get n query\<close> is what the GET with that query does
  when \<open>n\<close> calls have left the process before it. \<open>db_fault op\<close> is the exception the
  database raises at that point, if any. \<open>utcnow\<close> is the reading of the clock during
  the event, and \<open>stop_called\<close> says that \<open>stop()\<close> has run by the time the message is
  pulled.
\<close>

record env =
  api_key :: "string option"
  gemini_generate_summary :: "string \<Rightarrow> string \<Rightarrow> exn + string"
  gemini_extract_jargon :: "string \<Rightarrow> exn + json"
  http_get :: "nat \<Rightarrow> string \<Rightarrow> http_outcome"
  db_fault :: "db_op \<Rightarrow> exn option"
  utcnow :: nat
  stop_called :: bool

section \<open>The database\<close>

text \<open>
  The three tables the consumer touches, with the columns of \<open>models.py\<close> it reads or
  writes. \<open>veracity_score\<close> is a float column; it holds the integer the scorer computed.
  The generated primary keys of summary and jargon rows are left out: a row is found by
  its position in the table.
\<close>

record article_row =
  col_id :: string
  col_title :: string
  col_content :: string
  col_veracity_score :: "int option"
  col_fact_check_claims :: "processed_claim list"

record summary_row =
  sum_article_id :: string
  sum_mode :: string
  sum_summary :: string
  sum_generated_at :: nat

record jargon_row =
  jar_article_id :: string
  jar_term :: json
  jar_definition :: json
  jar_difficulty :: json

record database =
  articles :: "article_row list"
  article_summaries :: "summary_row list"
  article_jargon :: "jargon_row list"

text \<open>
  An \<open>Article\<close> instance loaded by the session: the mapped columns, and the plain
  instance attributes the consumer assigns. \<open>Article\<close> declares no column named
  \<open>veracity_claims\<close> or \<open>veracity_checked_at\<close>, so these two live on the Python object
  only and a flush does not write them.
\<close>

record article_obj =
  mapped :: article_row
  attr_veracity_claims :: "processed_claim list option"
  attr_veracity_checked_at :: "nat option"

text \<open>
  A session: the committed database and the view of the open transaction. Writes go to
  the view; \<open>commit\<close> installs it, \<open>rollback\<close> and \<open>close\<close> discard it.
\<close>

record session =
  stored :: database
  pending :: database

definition SessionLocal :: "database \<Rightarrow> session" where
  "SessionLocal d = \<lparr>stored = d, pending = d\<rparr>"

definition commit :: "session \<Rightarrow> session" where
  "commit s = s\<lparr>stored := pending s\<rparr>"

definition rollback :: "session \<Rightarrow> session" where
  "rollback s = s\<lparr>pending := stored s\<rparr>"

definition close :: "session \<Rightarrow> session" where
  "close s = s\<lparr>pending := stored s\<rparr>"

text \<open>\<open>db.query(Article).filter(Article.id == article_id).first()\<close>\<close>

definition query_article :: "string \<Rightarrow> session \<Rightarrow> article_obj option" where
  "query_article article_id s =
     (case find (\<lambda>r. col_id r = article_id) (articles (pending s)) of
        None \<Rightarrow> None
      | Some r \<Rightarrow>
          Some \<lparr>mapped = r, attr_veracity_claims = None, attr_veracity_checked_at = None\<rparr>)"

text \<open>
  The UPDATE a flush issues for the loaded \<open>Article\<close>: the one mapped column the
  consumer assigns, \<open>veracity_score\<close>, by primary key.
\<close>

definition flush_article :: "article_obj \<Rightarrow> session \<Rightarrow> session" where
  "flush_article article s =
     s\<lparr>pending := (pending s)\<lparr>articles :=
          map (\<lambda>r. if col_id r = col_id (mapped article)
                    then r\<lparr>col_veracity_score := col_veracity_score (mapped article)\<rparr>
                    else r)
            (articles (pending s))\<rparr>\<rparr>"

fun update_first :: "('a \<Rightarrow> bool) \<Rightarrow> ('a \<Rightarrow> 'a) \<Rightarrow> 'a list \<Rightarrow> 'a list" where
  "update_first P f [] = []"
| "update_first P f (x # xs) = (if P x then f x # xs else x # update_first P f xs)"

text \<open>Python truthiness of a decoded JSON value, and \<open>dict.get\<close> on a decoded object.\<close>

fun truthy :: "json \<Rightarrow> bool" where
  "truthy JNull = False"
| "truthy (JBool b) = b"
| "truthy (JNum n) = (n \<noteq> 0)"
| "truthy (JStr s) = (s \<noteq> [])"
| "truthy (JList xs) = (xs \<noteq> [])"
| "truthy (JObj kvs) = (kvs \<noteq> [])"

definition dict_get :: "(string \<times> json) list \<Rightarrow> string \<Rightarrow> json \<Rightarrow> json" where
  "dict_get d k dflt = (case map_of d k of None \<Rightarrow> dflt | Some v \<Rightarrow> v)"

section \<open>AINewsConsumer: persistence\<close>

text \<open>
  The \<open># Save Kid summary\<close> and \<open># Save Pro summary\<close> blocks of \<open>_save_to_database\<close>
  are the same code for the two modes; \<open>save_summary\<close> is that block. The SELECT may
  raise; the assignment to an existing row and \<open>db.add\<close> are writes of the open
  transaction.
\<close>

definition save_summary ::
  "env \<Rightarrow> string \<Rightarrow> string \<Rightarrow> string option \<Rightarrow> session \<Rightarrow> (exn + unit) \<times> session"
where
  "save_summary env article_id mode summary s =
     (case summary of
        None \<Rightarrow> (Inr (), s)
      | Some txt \<Rightarrow>
          if txt = [] then (Inr (), s)
          else
            (case db_fault env (QuerySummary mode) of
               Some e \<Rightarrow> (Inl e, s)
             | None \<Rightarrow>
                 (let same = (\<lambda>r. sum_article_id r = article_id \<and> sum_mode r = mode);
                      rows = article_summaries (pending s)
                  in case find same rows of
                       Some existing \<Rightarrow>
                         (Inr (),
                          s\<lparr>pending := (pending s)\<lparr>article_summaries :=
                               update_first same
                                 (\<lambda>r. r\<lparr>sum_summary := txt, sum_generated_at := utcnow env\<rparr>)
                                 rows\<rparr>\<rparr>)
                     | None \<Rightarrow>
                         (Inr (),
                          s\<lparr>pending := (pending s)\<lparr>article_summaries :=
                               rows @
                                 [\<lparr>sum_article_id = article_id, sum_mode = mode,
                                   sum_summary = txt, sum_generated_at = utcnow env\<rparr>]\<rparr>\<rparr>))))"

text \<open>
  What is stored for an attribute that has a column default: a \<open>None\<close> is left out
  of the INSERT, so the default of the column is stored in its place.
\<close>

definition or_column_default :: "json \<Rightarrow> json \<Rightarrow> json" where
  "or_column_default given dflt = (if given = JNull then dflt else given)"

text \<open>
  The \<open>for item in jargon_list\<close> loop: the rows the INSERTs of \<open>db.add\<close> store, in
  order. An item is kept when it is a dict whose \<open>term\<close> is truthy. \<open>difficulty\<close> has
  the column default \<open>"medium"\<close> (\<open>models.py\<close>); \<open>definition\<close> has none and is not
  nullable, so the INSERT of a row whose definition is \<open>None\<close> is refused by the
  database: that refusal is one of the faults of the commit.
\<close>

fun new_jargon_rows :: "string \<Rightarrow> json list \<Rightarrow> jargon_row list" where
  "new_jargon_rows article_id [] = []"
| "new_jargon_rows article_id (JObj item # rest) =
     (if truthy (dict_get item ''term'' JNull)
      then \<lparr>jar_article_id = article_id,
            jar_term = dict_get item ''term'' (JStr []),
            jar_definition = dict_get item ''definition'' (JStr []),
            jar_difficulty =
              or_column_default (dict_get item ''difficulty'' (JStr ''intermediate''))
                (JStr ''medium'')\<rparr>
           # new_jargon_rows article_id rest
      else new_jargon_rows article_id rest)"
| "new_jargon_rows article_id (item # rest) = new_jargon_rows article_id rest"

definition save_jargon ::
  "env \<Rightarrow> string \<Rightarrow> json list \<Rightarrow> session \<Rightarrow> (exn + unit) \<times> session"
where
  "save_jargon env article_id jargon_list s =
     (if jargon_list = [] then (Inr (), s)
      else
        (case db_fault env DeleteJargon of
           Some e \<Rightarrow> (Inl e, s)
         | None \<Rightarrow>
             (Inr (),
              s\<lparr>pending := (pending s)\<lparr>article_jargon :=
                   filter (\<lambda>r. jar_article_id r \<noteq> article_id) (article_jargon (pending s))
                   @ new_jargon_rows article_id jargon_list\<rparr>\<rparr>)))"

text \<open>
  The \<open># Update article with veracity score\<close> block: three attribute assignments on the
  loaded \<open>Article\<close>, and the UPDATE the next flush issues for it.
\<close>

definition update_veracity :: "env \<Rightarrow> article_obj \<Rightarrow> veracity_result \<Rightarrow> session \<Rightarrow> session" where
  "update_veracity env article veracity_data s =
     (if veracity_score veracity_data \<noteq> None \<or> claims veracity_data \<noteq> []
      then flush_article
             (article\<lparr>mapped := (mapped article)\<lparr>col_veracity_score :=
                          veracity_score veracity_data\<rparr>,
                      attr_veracity_claims := Some (claims veracity_data),
                      attr_veracity_checked_at := Some (utcnow env)\<rparr>) s
      else s)"

text \<open>The \<open>try\<close> block of \<open>_save_to_database\<close>, up to and including \<open>db.commit()\<close>.\<close>

definition save_try ::
  "env \<Rightarrow> string \<Rightarrow> string option \<Rightarrow> string option \<Rightarrow> json list \<Rightarrow> veracity_result \<Rightarrow> session
     \<Rightarrow> (exn + unit) \<times> session"
where
  "save_try env article_id kid_summary pro_summary jargon_list veracity_data s =
     (case db_fault env QueryArticle of
        Some e \<Rightarrow> (Inl e, s)
      | None \<Rightarrow>
          (case query_article article_id s of
             None \<Rightarrow> (Inr (), s)
           | Some article \<Rightarrow>
               (case save_summary env article_id ''kid'' kid_summary
                       (update_veracity env article veracity_data s) of
                  (Inl e, s2) \<Rightarrow> (Inl e, s2)
                | (Inr u, s2) \<Rightarrow>
                    (case save_summary env article_id ''pro'' pro_summary s2 of
                       (Inl e, s3) \<Rightarrow> (Inl e, s3)
                     | (Inr u, s3) \<Rightarrow>
                         (case save_jargon env article_id jargon_list s3 of
                            (Inl e, s4) \<Rightarrow> (Inl e, s4)
                          | (Inr u, s4) \<Rightarrow>
                              (case db_fault env Commit of
                                 Some e \<Rightarrow> (Inl e, s4)
                               | None \<Rightarrow> (Inr (), commit s4)))))))"

text \<open>
  \<open>_save_to_database\<close>: a fresh session, the \<open>try\<close> block, \<open>db.rollback()\<close> and
  re-raise in the \<open>except\<close> handler, \<open>db.close()\<close> in \<open>finally\<close>. The result is what the
  call returns or raises, and the committed database afterwards.
\<close>

definition save_to_database ::
  "env \<Rightarrow> string \<Rightarrow> string option \<Rightarrow> string option \<Rightarrow> json list \<Rightarrow> veracity_result \<Rightarrow> database
     \<Rightarrow> (exn + unit) \<times> database"
where
  "save_to_database env article_id kid_summary pro_summary jargon_list veracity_data d =
     (case save_try env article_id kid_summary pro_summary jargon_list veracity_data
             (SessionLocal d) of
        (Inl e, s) \<Rightarrow> (Inl e, stored (close (rollback s)))
      | (Inr u, s) \<Rightarrow> (Inr (), stored (close s)))"

section \<open>FactCheckService: the query\<close>

text \<open>
  The process and what it has done so far: the committed database, the calls that left
  the process, and the exceptions the consumption loop caught and logged.
\<close>

record world =
  db :: database
  calls :: "call list"
  error_log :: "exn list"

definition no_api_key_result :: veracity_result where
  "no_api_key_result = \<lparr>veracity_score = None, claims = [], status = Some ''no_api_key''\<rparr>"

definition access_denied_result :: veracity_result where
  "access_denied_result = \<lparr>veracity_score = None, claims = [], status = Some ''access_denied''\<rparr>"

definition error_result :: veracity_result where
  "error_result = \<lparr>veracity_score = None, claims = [], status = Some ''error''\<rparr>"

text \<open>
  \<open>FactCheckService.check_claim\<close>. \<open>not self.api_key\<close> holds for \<open>None\<close> and for the
  empty string. The GET carries \<open>claim_text[:200]\<close>; every exception inside the \<open>try\<close>
  becomes the \<open>error\<close> result.
\<close>

definition check_claim :: "env \<Rightarrow> string \<Rightarrow> string \<Rightarrow> world \<Rightarrow> veracity_result \<times> world" where
  "check_claim env claim_text language w =
     (case api_key env of
        None \<Rightarrow> (no_api_key_result, w)
      | Some key \<Rightarrow>
          if key = [] then (no_api_key_result, w)
          else
            (let query = take 200 claim_text;
                 w' = w\<lparr>calls := calls w @ [HttpGet key query language]\<rparr>
             in case http_get env (length (calls w)) query of
                  HttpRaises e \<Rightarrow> (error_result, w')
                | HttpResponse status_code data \<Rightarrow>
                    if status_code = 200 then (process_response data, w')
                    else if status_code = 403 then (access_denied_result, w')
                    else (error_result, w')))"

section \<open>AINewsConsumer: the four subtasks\<close>

text \<open>Python's \<open>str.split(sep)\<close> for a one-character separator.\<close>

fun split :: "char \<Rightarrow> string \<Rightarrow> string list" where
  "split sep [] = [[]]"
| "split sep (c # s) =
     (if c = sep then [] # split sep s
      else (case split sep s of [] \<Rightarrow> [[c]] | x # xs \<Rightarrow> (c # x) # xs))"

text \<open>\<open>content.split('.')[0][:200]\<close>; \<open>split\<close> never returns the empty list.\<close>

definition first_sentence :: "string \<Rightarrow> string" where
  "first_sentence content =
     (case split (CHR ''.'') content of [] \<Rightarrow> [] | x # xs \<Rightarrow> take 200 x)"

text \<open>
  \<open>_check_veracity\<close>. \<open>check_claim\<close> raises nothing, so the \<open>except\<close> branch is never
  taken and the result is always a returned dict.
\<close>

definition check_veracity ::
  "env \<Rightarrow> string \<Rightarrow> string \<Rightarrow> world \<Rightarrow> (exn + veracity_result) \<times> world"
where
  "check_veracity env title content w =
     (case check_claim env title ''en'' w of
        (result, w1) \<Rightarrow>
          if status result = Some ''no_matching_claims'' \<and> content \<noteq> []
          then (case check_claim env (first_sentence content) ''en'' w1 of
                  (result', w2) \<Rightarrow> (Inr result', w2))
          else (Inr result, w1))"

text \<open>\<open>_generate_summary\<close>: an exception of the model call is caught and becomes \<open>None\<close>.\<close>

definition generate_summary ::
  "env \<Rightarrow> string \<Rightarrow> string \<Rightarrow> world \<Rightarrow> (exn + string option) \<times> world"
where
  "generate_summary env content mode w =
     (let w' = w\<lparr>calls := calls w @ [GenerateSummary content mode]\<rparr>
      in case gemini_generate_summary env content mode of
           Inl e \<Rightarrow> (Inr None, w')
         | Inr summary \<Rightarrow> (Inr (Some summary), w'))"

text \<open>
  \<open>_extract_jargon\<close>: an exception becomes \<open>[]\<close>, and so does a value that is not a
  list.
\<close>

definition extract_jargon :: "env \<Rightarrow> string \<Rightarrow> world \<Rightarrow> (exn + json list) \<times> world" where
  "extract_jargon env content w =
     (let w' = w\<lparr>calls := calls w @ [ExtractJargon content]\<rparr>
      in case gemini_extract_jargon env content of
           Inl e \<Rightarrow> (Inr [], w')
         | Inr (JList jargon) \<Rightarrow> (Inr jargon, w')
         | Inr other \<Rightarrow> (Inr [], w'))"

section \<open>AINewsConsumer: one event, and the loop\<close>

record raw_event =
  ev_id :: "string option"
  ev_title :: "string option"
  ev_content :: "string option"

text \<open>The default of \<open>process_article\<close> for a veracity check that raised: no status key.\<close>

definition neutral_veracity :: veracity_result where
  "neutral_veracity = \<lparr>veracity_score = None, claims = [], status = None\<rparr>"

text \<open>
  \<open>process_article\<close>. The four coroutines of \<open>asyncio.gather\<close> touch nothing in common
  but the list of issued calls, so they are run one after the other in the order they
  are passed; \<open>return_exceptions=True\<close> hands a raised exception back as a value, which
  the four \<open>isinstance\<close> tests replace by a default.
\<close>

definition process_article :: "env \<Rightarrow> raw_event \<Rightarrow> world \<Rightarrow> (exn + unit) \<times> world" where
  "process_article env article_data w =
     (let article_id = get_default (ev_id article_data) [];
          title = get_default (ev_title article_data) [];
          content = get_default (ev_content article_data) []
      in if article_id = [] \<or> content = [] then (Inr (), w)
         else
           (case generate_summary env content ''kid'' w of
              (kid_result, w1) \<Rightarrow>
           (case generate_summary env content ''pro'' w1 of
              (pro_result, w2) \<Rightarrow>
           (case extract_jargon env content w2 of
              (jargon_result, w3) \<Rightarrow>
           (case check_veracity env title content w3 of
              (veracity_result, w4) \<Rightarrow>
             (let kid_summary = (case kid_result of Inl e \<Rightarrow> None | Inr v \<Rightarrow> v);
                  pro_summary = (case pro_result of Inl e \<Rightarrow> None | Inr v \<Rightarrow> v);
                  jargon_list = (case jargon_result of Inl e \<Rightarrow> [] | Inr v \<Rightarrow> v);
                  veracity_data =
                    (case veracity_result of Inl e \<Rightarrow> neutral_veracity | Inr v \<Rightarrow> v)
              in case save_to_database env article_id kid_summary pro_summary jargon_list
                        veracity_data (db w4) of
                   (r, d) \<Rightarrow> (r, w4\<lparr>db := d\<rparr>)))))))"

text \<open>
  The \<open>async for\<close> loop of \<open>start\<close> over the messages the broker delivers, each with the
  surroundings of its processing. The loop leaves when \<open>running\<close> is false; an exception
  out of \<open>process_article\<close> is logged and the loop goes on.
\<close>

fun start :: "(raw_event \<times> env) list \<Rightarrow> world \<Rightarrow> world" where
  "start [] w = w"
| "start ((message, env) # rest) w =
     (if stop_called env then w
      else (case process_article env message w of
              (Inl e, w') \<Rightarrow> start rest (w'\<lparr>error_log := error_log w' @ [e]\<rparr>)
            | (Inr u, w') \<Rightarrow> start rest w'))"

section \<open>Notions used to state the properties\<close>

text \<open>The entry the loop of \<open>_process_response\<close> appends for one claim.\<close>

definition process_one :: "api_claim \<Rightarrow> processed_claim" where
  "process_one claim =
     \<lparr>pc_claim_text = get_default (api_text claim) [],
      pc_claimant = get_default (api_claimant claim) ''Unknown'',
      pc_rating = get_default (textualRating (first_review claim)) [],
      pc_score = rating_to_score (get_default (textualRating (first_review claim)) []),
      pc_publisher =
        get_default (pub_name (get_default (cr_publisher (first_review claim)) empty_publisher))
          ''Unknown'',
      pc_review_url = get_default (cr_url (first_review claim)) []\<rparr>"

text \<open>The numeric scores among processed claims, in order.\<close>

fun scores_of :: "processed_claim list \<Rightarrow> int list" where
  "scores_of [] = []"
| "scores_of (p # ps) = (case pc_score p of None \<Rightarrow> scores_of ps | Some v \<Rightarrow> v # scores_of ps)"

text \<open>An article row with this id is in the database.\<close>

definition article_exists :: "string \<Rightarrow> database \<Rightarrow> bool" where
  "article_exists article_id d = list_ex (\<lambda>r. col_id r = article_id) (articles d)"

text \<open>An extracted item that \<open>_save_to_database\<close> stores: a dict with a truthy \<open>term\<close>.\<close>

fun storable_item :: "json \<Rightarrow> bool" where
  "storable_item (JObj item) = truthy (dict_get item ''term'' JNull)"
| "storable_item other = False"

text \<open>The jargon rows of one article, and the table with them removed.\<close>

definition jargon_of :: "string \<Rightarrow> database \<Rightarrow> jargon_row list" where
  "jargon_of article_id d = filter (\<lambda>r. jar_article_id r = article_id) (article_jargon d)"

definition jargon_without :: "string \<Rightarrow> database \<Rightarrow> jargon_row list" where
  "jargon_without article_id d = filter (\<lambda>r. jar_article_id r \<noteq> article_id) (article_jargon d)"

text \<open>
  The session after each step of the \<open>try\<close> block of \<open>_save_to_database\<close>: after the
  veracity update, after the kid summary, after the pro summary, after the jargon.
\<close>

definition after_veracity :: "env \<Rightarrow> string \<Rightarrow> veracity_result \<Rightarrow> session \<Rightarrow> session" where
  "after_veracity env a v s =
     (case query_article a s of None \<Rightarrow> s | Some art \<Rightarrow> update_veracity env art v s)"

definition after_kid :: "env \<Rightarrow> string \<Rightarrow> string option \<Rightarrow> veracity_result \<Rightarrow> session \<Rightarrow> session" where
  "after_kid env a k v s = snd (save_summary env a ''kid'' k (after_veracity env a v s))"

definition after_pro ::
  "env \<Rightarrow> string \<Rightarrow> string option \<Rightarrow> string option \<Rightarrow> veracity_result \<Rightarrow> session \<Rightarrow> session"
where
  "after_pro env a k p v s = snd (save_summary env a ''pro'' p (after_kid env a k v s))"

definition after_jargon ::
  "env \<Rightarrow> string \<Rightarrow> string option \<Rightarrow> string option \<Rightarrow> json list \<Rightarrow> veracity_result \<Rightarrow> session
     \<Rightarrow> session"
where
  "after_jargon env a k p jl v s = snd (save_jargon env a jl (after_pro env a k p v s))"

text \<open>
  The world once the first three subtasks have issued their calls, and the value each of
  the four subtasks contributes: what its call returned, or its default.
\<close>

definition dispatched :: "string \<Rightarrow> world \<Rightarrow> world" where
  "dispatched content w =
     w\<lparr>calls := calls w @
          [GenerateSummary content ''kid'', GenerateSummary content ''pro'', ExtractJargon content]\<rparr>"

definition summary_or_null :: "env \<Rightarrow> string \<Rightarrow> string \<Rightarrow> string option" where
  "summary_or_null env content mode =
     (case gemini_generate_summary env content mode of Inl e \<Rightarrow> None | Inr s \<Rightarrow> Some s)"

definition terms_or_empty :: "env \<Rightarrow> string \<Rightarrow> json list" where
  "terms_or_empty env content =
     (case gemini_extract_jargon env content of
        Inl e \<Rightarrow> []
      | Inr (JList jargon) \<Rightarrow> jargon
      | Inr other \<Rightarrow> [])"

definition veracity_or_neutral :: "env \<Rightarrow> string \<Rightarrow> string \<Rightarrow> world \<Rightarrow> veracity_result" where
  "veracity_or_neutral env title content w =
     (case fst (check_veracity env title content w) of
        Inl e \<Rightarrow> neutral_veracity
      | Inr v \<Rightarrow> v)"

text \<open>
  The row stored for an extracted dict: its \<open>term\<close> and \<open>definition\<close> members (the
  empty string for a missing one) and its \<open>difficulty\<close> member, \<open>"intermediate"\<close> when
  the member is missing and the column default \<open>"medium"\<close> when it is null.
\<close>

fun term_row :: "string \<Rightarrow> json \<Rightarrow> jargon_row" where
  "term_row article_id (JObj item) =
     \<lparr>jar_article_id = article_id,
      jar_term = (case map_of item ''term'' of None \<Rightarrow> JStr [] | Some t \<Rightarrow> t),
      jar_definition = (case map_of item ''definition'' of None \<Rightarrow> JStr [] | Some d \<Rightarrow> d),
      jar_difficulty =
        (case map_of item ''difficulty'' of
           None \<Rightarrow> JStr ''intermediate''
         | Some JNull \<Rightarrow> JStr ''medium''
         | Some level \<Rightarrow> level)\<rparr>"
| "term_row article_id other =
     \<lparr>jar_article_id = article_id, jar_term = other, jar_definition = JStr [],
      jar_difficulty = JStr ''intermediate''\<rparr>"

text \<open>The new set of terms of an article: one row for each storable item, in order.\<close>

definition stored_terms :: "string \<Rightarrow> json list \<Rightarrow> jargon_row list" where
  "stored_terms article_id jargon_list =
     map (term_row article_id) (filter storable_item jargon_list)"

text \<open>
  The summary table after an upsert for \<open>(article_id, mode)\<close>: no change for a missing
  or empty text; otherwise the first row of that key gets the text and the time, and when
  there is no such row one is added at the end.
\<close>

definition same_key :: "string \<Rightarrow> string \<Rightarrow> summary_row \<Rightarrow> bool" where
  "same_key article_id mode r = (sum_article_id r = article_id \<and> sum_mode r = mode)"

definition upserted ::
  "string \<Rightarrow> string \<Rightarrow> string option \<Rightarrow> nat \<Rightarrow> summary_row list \<Rightarrow> summary_row list"
where
  "upserted article_id mode summary now rows =
     (case summary of
        None \<Rightarrow> rows
      | Some txt \<Rightarrow>
          if txt = [] then rows
          else
            takeWhile (\<lambda>r. \<not> same_key article_id mode r) rows @
            (case dropWhile (\<lambda>r. \<not> same_key article_id mode r) rows of
               [] \<Rightarrow> [\<lparr>sum_article_id = article_id, sum_mode = mode, sum_summary = txt,
                       sum_generated_at = now\<rparr>]
             | r # rest \<Rightarrow> r\<lparr>sum_summary := txt, sum_generated_at := now\<rparr> # rest))"

text \<open>
  The article table after the veracity rule: the score column of the article takes the
  new score when the result has a score or a claim; nothing else changes.
\<close>

definition scored :: "string \<Rightarrow> veracity_result \<Rightarrow> article_row list \<Rightarrow> article_row list" where
  "scored article_id veracity_data rows =
     (if veracity_score veracity_data = None \<and> claims veracity_data = [] then rows
      else map (\<lambda>r. if col_id r = article_id
                     then r\<lparr>col_veracity_score := veracity_score veracity_data\<rparr> else r) rows)"

text \<open>The database a pass for an existing article commits.\<close>

definition persisted ::
  "nat \<Rightarrow> string \<Rightarrow> string option \<Rightarrow> string option \<Rightarrow> json list \<Rightarrow> veracity_result \<Rightarrow> database
     \<Rightarrow> database"
where
  "persisted now article_id kid_summary pro_summary jargon_list veracity_data d =
     \<lparr>articles = scored article_id veracity_data (articles d),
      article_summaries =
        upserted article_id ''pro'' pro_summary now
          (upserted article_id ''kid'' kid_summary now (article_summaries d)),
      article_jargon =
        (if jargon_list = [] then article_jargon d
         else jargon_without article_id d @ stored_terms article_id jargon_list)\<rparr>"

text \<open>
  The points at which a pass contacts the database, in order: the lookup of the article
  and, when the article exists, the SELECT of each summary that has a text, the DELETE
  when the list is not empty, and the commit.
\<close>

definition has_text :: "string option \<Rightarrow> bool" where
  "has_text summary = (case summary of None \<Rightarrow> False | Some txt \<Rightarrow> txt \<noteq> [])"

definition contacted ::
  "string \<Rightarrow> string option \<Rightarrow> string option \<Rightarrow> json list \<Rightarrow> database \<Rightarrow> db_op list"
where
  "contacted article_id kid_summary pro_summary jargon_list d =
     QueryArticle #
     (if article_exists article_id d
      then (if has_text kid_summary then [QuerySummary ''kid''] else []) @
           (if has_text pro_summary then [QuerySummary ''pro''] else []) @
           (if jargon_list = [] then [] else [DeleteJargon]) @
           [Commit]
      else [])"

text \<open>The exception of the first point, in order, at which the database raises.\<close>

fun first_fault :: "env \<Rightarrow> db_op list \<Rightarrow> exn option" where
  "first_fault env [] = None"
| "first_fault env (op # ops) =
     (case db_fault env op of None \<Rightarrow> first_fault env ops | Some e \<Rightarrow> Some e)"

section \<open>Example inputs\<close>

definition ex_claim :: "string \<Rightarrow> api_claim" where
  "ex_claim r =
     \<lparr>api_text = Some ''Vaccine causes X'', api_claimant = None,
      claimReview = Some [\<lparr>textualRating = Some r, cr_publisher = None, cr_url = None\<rparr>]\<rparr>"

definition ex_three :: fc_data where
  "ex_three = \<lparr>data_claims = Some [ex_claim ''True'', ex_claim ''False'', ex_claim ''Unrated'']\<rparr>"

definition ex_tie :: fc_data where
  "ex_tie =
     \<lparr>data_claims =
        Some [ex_claim ''Mixed'', ex_claim ''False'', ex_claim ''False'', ex_claim ''False'']\<rparr>"

definition ex_seven :: fc_data where
  "ex_seven = \<lparr>data_claims = Some (replicate 7 (ex_claim ''Half True''))\<rparr>"

definition ex_db :: database where
  "ex_db =
     \<lparr>articles =
        [\<lparr>col_id = ''a1'', col_title = ''Vaccine causes X'',
          col_content = ''Sentence one. Sentence two.'',
          col_veracity_score = None, col_fact_check_claims = []\<rparr>],
      article_summaries = [],
      article_jargon =
        [\<lparr>jar_article_id = ''a1'', jar_term = JStr ''antigen'',
          jar_definition = JStr ''...'', jar_difficulty = JStr ''basic''\<rparr>,
         \<lparr>jar_article_id = ''a0'', jar_term = JStr ''quorum'',
          jar_definition = JStr ''...'', jar_difficulty = JStr ''basic''\<rparr>]\<rparr>"

definition ex_env :: env where
  "ex_env =
     \<lparr>api_key = Some ''key'',
      gemini_generate_summary = (\<lambda>content mode. Inr (mode @ '' summary'')),
      gemini_extract_jargon =
        (\<lambda>content. Inr (JList [JObj [(''term'', JStr ''mRNA''), (''definition'', JStr ''...''),
                                     (''difficulty'', JStr ''advanced'')]])),
      http_get = (\<lambda>n query. HttpResponse 200 \<lparr>data_claims = Some [ex_claim ''False'']\<rparr>),
      db_fault = (\<lambda>op. None),
      utcnow = 7,
      stop_called = False\<rparr>"

definition ex_false_result :: veracity_result where
  "ex_false_result =
     \<lparr>veracity_score = Some 0, claims = [process_one (ex_claim ''False'')],
      status = Some ''success''\<rparr>"

definition ex_malformed :: "json list" where
  "ex_malformed = [JStr ''mRNA'', JObj [(''definition'', JStr ''...'')], JObj [(''term'', JStr [])]]"

definition ex_terms :: "json list" where
  "ex_terms =
     [JObj [(''term'', JStr ''mRNA''), (''definition'', JStr ''...''),
            (''difficulty'', JStr ''advanced'')]]"

definition ex_event :: raw_event where
  "ex_event =
     \<lparr>ev_id = Some ''a1'', ev_title = Some ''Vaccine causes X'',
      ev_content = Some ''Sentence one. Sentence two.''\<rparr>"

definition ex_world :: world where
  "ex_world = \<lparr>db = ex_db, calls = [], error_log = []\<rparr>"


definition ex_no_match :: env where
  "ex_no_match = ex_env\<lparr>http_get := (\<lambda>n query. HttpResponse 200 \<lparr>data_claims = Some []\<rparr>)\<rparr>"

definition ex_no_key :: env where
  "ex_no_key = ex_env\<lparr>api_key := None\<rparr>"

definition ex_commit_fault :: env where
  "ex_commit_fault =
     ex_env\<lparr>db_fault := (\<lambda>op. if op = Commit then Some (Exception ''connection lost'') else None)\<rparr>"

definition ex_extractor_down :: env where
  "ex_extractor_down =
     ex_env\<lparr>gemini_extract_jargon := (\<lambda>content. Inl (Exception ''extractor down''))\<rparr>"

definition ex_mixed :: "json list" where
  "ex_mixed =
     [JObj [(''term'', JStr ''mRNA''), (''definition'', JStr ''messenger''),
            (''difficulty'', JStr ''advanced'')],
      JStr ''codon'',
      JObj [(''term'', JStr ''RNA''), (''definition'', JStr ''acid''), (''difficulty'', JNull)],
      JObj [(''definition'', JStr ''no term'')],
      JObj [(''term'', JStr ''gene'')]]"

definition ex_delete_fault :: env where
  "ex_delete_fault =
     ex_env\<lparr>db_fault := (\<lambda>op. if op = DeleteJargon then Some (Exception ''deadlock'') else None)\<rparr>"

definition ex_select_fault :: env where
  "ex_select_fault =
     ex_env\<lparr>db_fault :=
       (\<lambda>op. if op = QuerySummary ''pro'' then Some (Exception ''timeout'') else None)\<rparr>"

definition ex_kid_down :: env where
  "ex_kid_down =
     ex_env\<lparr>gemini_generate_summary :=
       (\<lambda>content mode. if mode = ''kid'' then Inl (Exception ''model overloaded'')
                        else Inr (mode @ '' summary''))\<rparr>"

section \<open>Properties of the rating buckets\<close>

lemma starts_with_iff: "starts_with s w \<longleftrightarrow> (\<exists>q. s = w @ q)"
  by (induction s w rule: starts_with.induct) auto

lemma str_in_iff: "str_in w s \<longleftrightarrow> (\<exists>p q. s = p @ w @ q)"
proof (induction s)
  case Nil
  then show ?case by auto
next
  case (Cons x s)
  show ?case
  proof
    assume "str_in w (x # s)"
    then consider "starts_with (x # s) w" | "str_in w s" by auto
    then show "\<exists>p q. x # s = p @ w @ q"
    proof cases
      case 1
      then obtain q where "x # s = w @ q" by (auto simp: starts_with_iff)
      then have "x # s = [] @ w @ q" by simp
      then show ?thesis by blast
    next
      case 2
      then obtain p q where "s = p @ w @ q" using Cons.IH by auto
      then have "x # s = (x # p) @ w @ q" by simp
      then show ?thesis by blast
    qed
  next
    assume "\<exists>p q. x # s = p @ w @ q"
    then obtain p q where pq: "x # s = p @ w @ q" by blast
    show "str_in w (x # s)"
    proof (cases p)
      case Nil
      with pq have "starts_with (x # s) w" by (auto simp: starts_with_iff)
      then show ?thesis by simp
    next
      case (Cons y p')
      with pq have "s = p' @ w @ q" by simp
      then have "str_in w s" using Cons.IH by blast
      then show ?thesis by simp
    qed
  qed
qed

lemma str_in_longer_word: "str_in (u @ v) s \<Longrightarrow> str_in v s"
proof -
  assume "str_in (u @ v) s"
  then obtain p q where "s = p @ (u @ v) @ q" by (auto simp: str_in_iff)
  then have "s = (p @ u) @ v @ q" by simp
  then show ?thesis unfolding str_in_iff by blast
qed

lemma mostly_true_has_true: "str_in ''mostly true'' s \<Longrightarrow> str_in ''true'' s"
  using str_in_longer_word[of "''mostly ''" "''true''" s] by simp

lemma mostly_accurate_has_accurate: "str_in ''mostly accurate'' s \<Longrightarrow> str_in ''accurate'' s"
  using str_in_longer_word[of "''mostly ''" "''accurate''" s] by simp

lemma largely_true_has_true: "str_in ''largely true'' s \<Longrightarrow> str_in ''true'' s"
  using str_in_longer_word[of "''largely ''" "''true''" s] by simp

text \<open>
  The second bucket is out of reach: each of its three words contains a word of the
  first bucket, which is tested before it. No rating is scored 80.
\<close>

lemma rating_to_score_never_80: "rating_to_score rating \<noteq> Some 80"
  using mostly_true_has_true mostly_accurate_has_accurate largely_true_has_true
  by (auto simp: rating_to_score_def any_word_in_def Let_def)

lemmas rating_eval = rating_to_score_def any_word_in_def str_lower_def lower_char_def

lemma rating_examples:
  "rating_to_score ''Pants on Fire'' = Some 0"
  "rating_to_score ''Unrated'' = None"
  "rating_to_score ''True'' = Some 100"
  "rating_to_score ''False'' = Some 0"
  "rating_to_score ''Half True'' = Some 100"
  "rating_to_score ''Mostly False'' = Some 20"
  "rating_to_score ''Incorrect'' = Some 100"
  by (simp_all add: rating_eval)

text \<open>
  C1. The buckets are tested in the order of the table and the first match wins, on the
  lower-cased rating. On that order \<open>"Mostly True"\<close> contains \<open>true\<close> and is scored 100
  by the first bucket, not 80.
\<close>

theorem rating_mostly_true_is_100: "rating_to_score ''Mostly True'' = Some 100"
  by (simp add: rating_eval)

section \<open>Properties of the aggregate score\<close>

lemma process_loop_eq:
  "process_loop cs acc t n =
     (acc @ map process_one cs,
      t + sum_list (scores_of (map process_one cs)),
      n + length (scores_of (map process_one cs)))"
proof (induction cs arbitrary: acc t n)
  case Nil
  then show ?case by simp
next
  case (Cons c cs)
  show ?case
  proof (cases "pc_score (process_one c)")
    case None
    then show ?thesis
      by (simp add: Cons.IH Let_def process_one_def)
  next
    case (Some v)
    then show ?thesis
      by (simp add: Cons.IH Let_def process_one_def)
  qed
qed

lemma py_round_div_nearest_int:
  assumes "0 < n"
  shows "2 * \<bar>py_round_div t n * n - t\<bar> \<le> n"
proof -
  define q where "q = t div n"
  define r where "r = t mod n"
  have t: "t = q * n + r" by (simp add: q_def r_def)
  have r: "0 \<le> r" "r < n" using assms by (simp_all add: r_def)
  have "py_round_div t n = q \<and> 2 * r \<le> n \<or> py_round_div t n = q + 1 \<and> n \<le> 2 * r"
    by (auto simp: py_round_div_def Let_def q_def r_def)
  then show ?thesis
  proof
    assume a: "py_round_div t n = q \<and> 2 * r \<le> n"
    then have "py_round_div t n * n - t = - r" using t by simp
    then show ?thesis using a r by simp
  next
    assume a: "py_round_div t n = q + 1 \<and> n \<le> 2 * r"
    then have "py_round_div t n * n - t = n - r" using t by (simp add: algebra_simps)
    then show ?thesis using a r by simp
  qed
qed

lemma py_round_div_nearest:
  assumes "0 < n"
  shows "\<bar>real_of_int (py_round_div t n) - real_of_int t / real_of_int n\<bar> \<le> 1 / 2"
proof -
  let ?v = "py_round_div t n"
  have n: "0 < real_of_int n" using assms by simp
  have "real_of_int (2 * \<bar>?v * n - t\<bar>) \<le> real_of_int n"
    using py_round_div_nearest_int[OF assms, of t] by (simp only: of_int_le_iff)
  then have "2 * \<bar>real_of_int ?v * real_of_int n - real_of_int t\<bar> \<le> real_of_int n"
    by simp
  moreover have "real_of_int ?v - real_of_int t / real_of_int n
      = (real_of_int ?v * real_of_int n - real_of_int t) / real_of_int n"
    using n by (simp add: field_simps)
  ultimately show ?thesis
    using n by (simp add: abs_divide field_simps)
qed

text \<open>
  C3. The processed claims are the first five of the response at most, one entry each.
  When none of them has a numeric score (also when the response has no claim at all)
  the overall score is null; otherwise it is an integer within 1/2 of the arithmetic
  mean of the numeric scores, that is, the mean rounded to the nearest integer (a mean
  half-way between two integers goes to the even one, as \<open>round\<close> does).
\<close>

theorem process_response_mean:
  "claims (process_response data) = map process_one (take 5 (get_default (data_claims data) []))
   \<and> length (claims (process_response data)) \<le> 5
   \<and> (scores_of (claims (process_response data)) = []
        \<longrightarrow> veracity_score (process_response data) = None)
   \<and> (scores_of (claims (process_response data)) \<noteq> []
        \<longrightarrow> (\<exists>v. veracity_score (process_response data) = Some v
               \<and> v = py_round_div (sum_list (scores_of (claims (process_response data))))
                     (int (length (scores_of (claims (process_response data)))))
               \<and> \<bar>real_of_int v
                    - real_of_int (sum_list (scores_of (claims (process_response data))))
                      / real (length (scores_of (claims (process_response data))))\<bar> \<le> 1 / 2))"
proof -
  let ?cs = "get_default (data_claims data) []"
  let ?ps = "map process_one (take 5 ?cs)"
  show ?thesis
  proof (cases "?cs = []")
    case True
    then show ?thesis by (simp add: process_response_def)
  next
    case False
    have res: "process_response data =
        \<lparr>veracity_score =
           (if length (scores_of ?ps) > 0
            then Some (py_round_div (sum_list (scores_of ?ps)) (int (length (scores_of ?ps))))
            else None),
         claims = ?ps, status = Some ''success''\<rparr>"
      using False by (simp add: process_response_def process_loop_eq Let_def)
    have near: "scores_of ?ps \<noteq> [] \<Longrightarrow>
        \<bar>real_of_int (py_round_div (sum_list (scores_of ?ps)) (int (length (scores_of ?ps))))
          - real_of_int (sum_list (scores_of ?ps)) / real (length (scores_of ?ps))\<bar> \<le> 1 / 2"
      using py_round_div_nearest[of "int (length (scores_of ?ps))" "sum_list (scores_of ?ps)"]
      by simp
    show ?thesis using near by (simp add: res)
  qed
qed

theorem process_response_mean_witness:
  "scores_of (claims (process_response ex_three)) = [100, 0]
   \<and> map pc_score (claims (process_response ex_three)) = [Some 100, Some 0, None]
   \<and> veracity_score (process_response ex_three) = Some 50
   \<and> length (get_default (data_claims ex_seven) []) = 7
   \<and> length (claims (process_response ex_seven)) = 5
   \<and> veracity_score (process_response \<lparr>data_claims = Some []\<rparr>) = None
   \<and> scores_of (claims (process_response ex_tie)) = [50, 0, 0, 0]
   \<and> veracity_score (process_response ex_tie) = Some 12"
proof -
  have tie_scores: "scores_of (claims (process_response ex_tie)) = [50, 0, 0, 0]"
    using process_response_mean[of ex_tie]
    by (simp add: ex_tie_def get_default_def process_one_def ex_claim_def first_review_def
        rating_eval)
  have tie: "veracity_score (process_response ex_tie) = Some 12"
    using process_response_mean[of ex_tie] by (auto simp: tie_scores py_round_div_def)
  have three: "process_response ex_three =
     \<lparr>veracity_score = Some 50,
      claims = map process_one [ex_claim ''True'', ex_claim ''False'', ex_claim ''Unrated''],
      status = Some ''success''\<rparr>"
    by (simp add: process_response_def ex_three_def get_default_def process_loop_eq
        process_one_def ex_claim_def first_review_def rating_eval py_round_div_def)
  have scores: "scores_of (claims (process_response ex_three)) = [100, 0]"
    "map pc_score (claims (process_response ex_three)) = [Some 100, Some 0, None]"
    by (simp_all add: three process_one_def ex_claim_def first_review_def get_default_def
        rating_eval)
  have seven: "length (claims (process_response ex_seven)) = 5"
    using process_response_mean[of ex_seven] by (simp add: ex_seven_def get_default_def)
  have none: "veracity_score (process_response \<lparr>data_claims = Some []\<rparr>) = None"
    using process_response_mean[of "\<lparr>data_claims = Some []\<rparr>"]
    by (simp add: get_default_def)
  have "\<exists>v. veracity_score (process_response ex_three) = Some v
      \<and> \<bar>real_of_int v - real_of_int (sum_list [100, 0]) / real (length [100, 0 :: int])\<bar> \<le> 1 / 2"
    using process_response_mean[of ex_three] scores by simp
  then obtain v where v: "veracity_score (process_response ex_three) = Some v"
    and near: "\<bar>real_of_int v - 50\<bar> \<le> 1 / 2"
    by auto
  from near have "v = 50" by linarith
  with v have "veracity_score (process_response ex_three) = Some 50" by simp
  then show ?thesis using scores seven none tie tie_scores
    by (simp add: ex_seven_def get_default_def)
qed

section \<open>Properties of the persistence pass\<close>

lemma find_None_article: "find (\<lambda>r. col_id r = a) (articles d) = None \<longleftrightarrow> \<not> article_exists a d"
  by (auto simp: article_exists_def find_None_iff list_ex_iff)

lemma query_article_None: "query_article a (SessionLocal d) = None \<longleftrightarrow> \<not> article_exists a d"
  by (auto simp: query_article_def SessionLocal_def find_None_article[symmetric] split: option.splits)

lemma save_summary_stored: "stored (snd (save_summary env a m t s)) = stored s"
  by (simp add: save_summary_def Let_def split: option.splits)

lemma save_summary_jargon:
  "article_jargon (pending (snd (save_summary env a m t s))) = article_jargon (pending s)"
  by (simp add: save_summary_def Let_def split: option.splits)

lemma save_summary_articles:
  "articles (pending (snd (save_summary env a m t s))) = articles (pending s)"
  by (simp add: save_summary_def Let_def split: option.splits)

lemma save_summary_ok:
  "db_fault env (QuerySummary m) = None \<Longrightarrow> fst (save_summary env a m t s) = Inr ()"
  by (simp add: save_summary_def Let_def split: option.splits)

lemma save_summary_raises:
  "fst (save_summary env a m t s) = Inl e \<Longrightarrow> db_fault env (QuerySummary m) = Some e"
  by (simp add: save_summary_def Let_def split: option.splits if_splits)

lemma save_jargon_stored: "stored (snd (save_jargon env a jl s)) = stored s"
  by (simp add: save_jargon_def split: option.splits)

lemma save_jargon_ok:
  "db_fault env DeleteJargon = None \<Longrightarrow> fst (save_jargon env a jl s) = Inr ()"
  by (simp add: save_jargon_def split: option.splits)

lemma save_jargon_raises:
  "fst (save_jargon env a jl s) = Inl e \<Longrightarrow> db_fault env DeleteJargon = Some e"
  by (simp add: save_jargon_def split: option.splits if_splits)

lemma save_jargon_rows:
  "db_fault env DeleteJargon = None \<Longrightarrow>
   article_jargon (pending (snd (save_jargon env a jl s))) =
     (if jl = [] then article_jargon (pending s)
      else filter (\<lambda>r. jar_article_id r \<noteq> a) (article_jargon (pending s)) @ new_jargon_rows a jl)"
  by (simp add: save_jargon_def split: option.splits)

lemma flush_article_stored: "stored (flush_article art s) = stored s"
  by (simp add: flush_article_def)

lemma flush_article_jargon: "article_jargon (pending (flush_article art s)) = article_jargon (pending s)"
  by (simp add: flush_article_def)


lemma update_veracity_stored: "stored (update_veracity env art v s) = stored s"
  by (simp add: update_veracity_def flush_article_stored)

lemma update_veracity_jargon:
  "article_jargon (pending (update_veracity env art v s)) = article_jargon (pending s)"
  by (simp add: update_veracity_def flush_article_jargon)


lemma pair_fst_snd: "fst x = r \<Longrightarrow> x = (r, snd x)"
  by (cases x) simp

lemma save_try_committed:
  assumes "\<forall>op. db_fault env op = None" and "query_article a s = Some art"
  shows "save_try env a k p jl v s = (Inr (), commit (after_jargon env a k p jl v s))"
proof -
  have k: "save_summary env a ''kid'' k (update_veracity env art v s)
      = (Inr (), after_kid env a k v s)"
    using assms save_summary_ok[of env "''kid''" a k "update_veracity env art v s"]
    by (simp add: after_kid_def after_veracity_def pair_fst_snd)
  have p: "save_summary env a ''pro'' p (after_kid env a k v s)
      = (Inr (), after_pro env a k p v s)"
    using assms save_summary_ok[of env "''pro''" a p "after_kid env a k v s"]
    by (simp add: after_pro_def pair_fst_snd)
  have j: "save_jargon env a jl (after_pro env a k p v s)
      = (Inr (), after_jargon env a k p jl v s)"
    using assms save_jargon_ok[of env a jl "after_pro env a k p v s"]
    by (simp add: after_jargon_def pair_fst_snd)
  show ?thesis using assms by (simp add: save_try_def k p j)
qed

lemma save_try_stored:
  "fst (save_try env a k p jl v s) = Inl e \<Longrightarrow>
   stored (snd (save_try env a k p jl v s)) = stored s \<and> (\<exists>op. db_fault env op = Some e)"
proof -
  assume raised: "fst (save_try env a k p jl v s) = Inl e"
  show ?thesis
  proof (cases "db_fault env QueryArticle")
    case (Some e')
    with raised show ?thesis by (auto simp: save_try_def)
  next
    case None
    show ?thesis
    proof (cases "query_article a s")
      case qn: None
      with None raised show ?thesis by (simp add: save_try_def)
    next
      case (Some art)
      let ?s1 = "update_veracity env art v s"
      obtain r2 s2 where k: "save_summary env a ''kid'' k ?s1 = (r2, s2)" by fastforce
      obtain r3 s3 where p: "save_summary env a ''pro'' p s2 = (r3, s3)" by fastforce
      obtain r4 s4 where j: "save_jargon env a jl s3 = (r4, s4)" by fastforce
      have st: "stored s2 = stored s" "stored s3 = stored s" "stored s4 = stored s"
        using save_summary_stored[of env a "''kid''" k ?s1] k
          save_summary_stored[of env a "''pro''" p s2] p
          save_jargon_stored[of env a jl s3] j
        by (simp_all add: update_veracity_stored)
      have f2: "r2 = Inl e \<Longrightarrow> db_fault env (QuerySummary ''kid'') = Some e"
        using save_summary_raises[of env a "''kid''" k ?s1 e] k by simp
      have f3: "r3 = Inl e \<Longrightarrow> db_fault env (QuerySummary ''pro'') = Some e"
        using save_summary_raises[of env a "''pro''" p s2 e] p by simp
      have f4: "r4 = Inl e \<Longrightarrow> db_fault env DeleteJargon = Some e"
        using save_jargon_raises[of env a jl s3 e] j by simp
      from raised None Some k p j st f2 f3 f4 show ?thesis
        by (auto simp: save_try_def split: sum.splits option.splits)
    qed
  qed
qed

lemma close_commit: "stored (close (commit s)) = pending s"
  by (simp add: close_def commit_def)

lemma close_stored: "stored (close s) = stored s"
  by (simp add: close_def)

lemma rollback_stored: "stored (rollback s) = stored s"
  by (simp add: rollback_def)

lemma save_to_database_committed:
  assumes "\<forall>op. db_fault env op = None" and "article_exists a d"
  shows "save_to_database env a k p jl v d
     = (Inr (), pending (after_jargon env a k p jl v (SessionLocal d)))"
proof -
  from assms(2) obtain art where "query_article a (SessionLocal d) = Some art"
    using query_article_None[of a d] by auto
  then show ?thesis
    using save_try_committed[OF assms(1), of a "SessionLocal d" art k p jl v]
    by (simp add: save_to_database_def close_commit)
qed

lemma save_to_database_raises:
  assumes "fst (save_to_database env a k p jl v d) = Inl e"
  shows "snd (save_to_database env a k p jl v d) = d \<and> (\<exists>op. db_fault env op = Some e)"
proof -
  obtain r s where t: "save_try env a k p jl v (SessionLocal d) = (r, s)" by fastforce
  with assms have r: "r = Inl e"
    by (auto simp: save_to_database_def split: sum.splits)
  then have "stored s = stored (SessionLocal d) \<and> (\<exists>op. db_fault env op = Some e)"
    using save_try_stored[of env a k p jl v "SessionLocal d" e] t by simp
  then show ?thesis using t r
    by (simp add: save_to_database_def close_stored rollback_stored SessionLocal_def)
qed

lemma after_jargon_rows:
  assumes "db_fault env DeleteJargon = None"
  shows "article_jargon (pending (after_jargon env a k p jl v (SessionLocal d)))
     = (if jl = [] then article_jargon d else jargon_without a d @ new_jargon_rows a jl)"
proof -
  have "article_jargon (pending (after_pro env a k p v (SessionLocal d))) = article_jargon d"
    by (simp add: after_pro_def after_kid_def after_veracity_def save_summary_jargon
        update_veracity_jargon SessionLocal_def split: option.splits)
  then show ?thesis
    using save_jargon_rows[OF assms, of a jl "after_pro env a k p v (SessionLocal d)"]
    by (simp add: after_jargon_def jargon_without_def)
qed

lemma new_jargon_rows_article: "r \<in> set (new_jargon_rows a jl) \<Longrightarrow> jar_article_id r = a"
  by (induction a jl rule: new_jargon_rows.induct) (auto split: if_splits)

lemma new_jargon_rows_none:
  "\<forall>item \<in> set jl. \<not> storable_item item \<Longrightarrow> new_jargon_rows a jl = []"
  by (induction a jl rule: new_jargon_rows.induct) auto

lemma new_jargon_rows_length:
  "length (new_jargon_rows a jl) = length (filter storable_item jl)"
  by (induction a jl rule: new_jargon_rows.induct) auto

text \<open>
  C9. When no article row has the given id and the lookup itself does not fail,
  \<open>_save_to_database\<close> returns normally and the database is what it was: nothing of
  the four results is written.
\<close>

theorem save_without_article:
  assumes "\<not> article_exists article_id d" and "db_fault env QueryArticle = None"
  shows "save_to_database env article_id kid_summary pro_summary jargon_list veracity_data d
     = (Inr (), d)"
  using assms query_article_None[of article_id d]
  by (simp add: save_to_database_def save_try_def close_def SessionLocal_def)

text \<open>
  C10. A non-empty extraction result none of whose items is a dict with a truthy
  \<open>term\<close> still triggers the delete: the pass commits, every stored term of the
  article is gone and none is inserted.
\<close>

theorem malformed_items_erase_jargon:
  assumes "jargon_list \<noteq> []"
    and "\<forall>item \<in> set jargon_list. \<not> storable_item item"
    and "article_exists article_id d"
    and "\<forall>op. db_fault env op = None"
  shows "fst (save_to_database env article_id kid_summary pro_summary jargon_list veracity_data d)
           = Inr ()
     \<and> article_jargon
         (snd (save_to_database env article_id kid_summary pro_summary jargon_list veracity_data d))
           = jargon_without article_id d
     \<and> jargon_of article_id
         (snd (save_to_database env article_id kid_summary pro_summary jargon_list veracity_data d))
           = []"
  using assms
  by (simp add: save_to_database_committed after_jargon_rows new_jargon_rows_none
      jargon_of_def jargon_without_def)

lemma ex_db_has_a1: "article_exists ''a1'' ex_db" "\<not> article_exists ''zz'' ex_db"
  by (simp_all add: article_exists_def ex_db_def)

lemma ex_env_no_fault: "\<forall>op. db_fault ex_env op = None"
  by (simp add: ex_env_def)

theorem save_without_article_witness:
  "\<not> article_exists ''zz'' ex_db \<and> db_fault ex_env QueryArticle = None
   \<and> save_to_database ex_env ''zz'' (Some ''kid summary'') (Some ''pro summary'')
        [JObj [(''term'', JStr ''mRNA'')]] ex_false_result ex_db = (Inr (), ex_db)"
  using save_without_article[of "''zz''" ex_db ex_env "Some ''kid summary''" "Some ''pro summary''"
      "[JObj [(''term'', JStr ''mRNA'')]]" ex_false_result]
    ex_db_has_a1 ex_env_no_fault
  by simp

lemma jargon_ex_db:
  "jargon_of ''a1'' ex_db =
     [\<lparr>jar_article_id = ''a1'', jar_term = JStr ''antigen'',
       jar_definition = JStr ''...'', jar_difficulty = JStr ''basic''\<rparr>]"
  "jargon_without ''a1'' ex_db =
     [\<lparr>jar_article_id = ''a0'', jar_term = JStr ''quorum'',
       jar_definition = JStr ''...'', jar_difficulty = JStr ''basic''\<rparr>]"
  by (simp_all add: jargon_of_def jargon_without_def ex_db_def)

theorem malformed_items_erase_jargon_witness:
  "ex_malformed \<noteq> [] \<and> list_all (\<lambda>item. \<not> storable_item item) ex_malformed
   \<and> article_exists ''a1'' ex_db
   \<and> jargon_of ''a1'' ex_db =
       [\<lparr>jar_article_id = ''a1'', jar_term = JStr ''antigen'',
         jar_definition = JStr ''...'', jar_difficulty = JStr ''basic''\<rparr>]
   \<and> fst (save_to_database ex_env ''a1'' None None ex_malformed neutral_veracity ex_db) = Inr ()
   \<and> jargon_of ''a1''
        (snd (save_to_database ex_env ''a1'' None None ex_malformed neutral_veracity ex_db)) = []
   \<and> article_jargon
        (snd (save_to_database ex_env ''a1'' None None ex_malformed neutral_veracity ex_db)) =
       [\<lparr>jar_article_id = ''a0'', jar_term = JStr ''quorum'',
         jar_definition = JStr ''...'', jar_difficulty = JStr ''basic''\<rparr>]"
proof -
  have bad: "\<forall>item \<in> set ex_malformed. \<not> storable_item item"
    by (simp add: ex_malformed_def dict_get_def)
  have ne: "ex_malformed \<noteq> []" by (simp add: ex_malformed_def)
  show ?thesis
    using malformed_items_erase_jargon[OF ne bad ex_db_has_a1(1) ex_env_no_fault,
        of None None neutral_veracity] bad ne ex_db_has_a1(1)
    by (simp add: jargon_ex_db list_all_iff)
qed

lemma save_jargon_rows_returned:
  "fst (save_jargon env a jl s) = Inr () \<Longrightarrow>
   article_jargon (pending (snd (save_jargon env a jl s))) =
     (if jl = [] then article_jargon (pending s)
      else filter (\<lambda>r. jar_article_id r \<noteq> a) (article_jargon (pending s)) @ new_jargon_rows a jl)"
  by (simp add: save_jargon_def split: option.splits if_splits)

lemma save_try_returns:
  assumes "fst (save_try env a k p jl v s) = Inr ()"
  shows "snd (save_try env a k p jl v s) = s
    \<or> snd (save_try env a k p jl v s) = commit (after_jargon env a k p jl v s)
      \<and> fst (save_jargon env a jl (after_pro env a k p v s)) = Inr ()"
proof (cases "db_fault env QueryArticle")
  case (Some e')
  with assms show ?thesis by (simp add: save_try_def)
next
  case None
  show ?thesis
  proof (cases "query_article a s")
    case qn: None
    with None show ?thesis by (simp add: save_try_def)
  next
    case (Some art)
    let ?s1 = "update_veracity env art v s"
    obtain r2 s2 where k: "save_summary env a ''kid'' k ?s1 = (r2, s2)" by fastforce
    obtain r3 s3 where p: "save_summary env a ''pro'' p s2 = (r3, s3)" by fastforce
    obtain r4 s4 where j: "save_jargon env a jl s3 = (r4, s4)" by fastforce
    have s2: "s2 = after_kid env a k v s"
      using k Some by (simp add: after_kid_def after_veracity_def)
    have s3: "s3 = after_pro env a k p v s"
      using p s2 by (simp add: after_pro_def)
    have s4: "s4 = after_jargon env a k p jl v s"
      using j s3 by (simp add: after_jargon_def)
    from assms None Some k p j have "r4 = Inr () \<and> snd (save_try env a k p jl v s) = commit s4"
      by (auto simp: save_try_def split: sum.splits option.splits)
    then show ?thesis using s3 s4 j by auto
  qed
qed

lemma pending_jargon_before_jargon:
  "article_jargon (pending (after_pro env a k p v (SessionLocal d))) = article_jargon d"
  by (simp add: after_pro_def after_kid_def after_veracity_def save_summary_jargon
      update_veracity_jargon SessionLocal_def split: option.splits)

lemma save_to_database_jargon_cases:
  "article_jargon (snd (save_to_database env a k p jl v d)) = article_jargon d
   \<or> article_jargon (snd (save_to_database env a k p jl v d))
       = jargon_without a d @ new_jargon_rows a jl"
proof (cases "fst (save_to_database env a k p jl v d)")
  case (Inl e)
  then show ?thesis using save_to_database_raises[of env a k p jl v d e] by simp
next
  case (Inr u)
  obtain r s where t: "save_try env a k p jl v (SessionLocal d) = (r, s)" by fastforce
  with Inr have r: "r = Inr ()" by (auto simp: save_to_database_def split: sum.splits)
  have db: "snd (save_to_database env a k p jl v d) = stored s"
    using t r by (simp add: save_to_database_def close_stored)
  from save_try_returns[of env a k p jl v "SessionLocal d"] t r
  consider "s = SessionLocal d"
    | "s = commit (after_jargon env a k p jl v (SessionLocal d))"
      "fst (save_jargon env a jl (after_pro env a k p v (SessionLocal d))) = Inr ()"
    by auto
  then show ?thesis
  proof cases
    case 1
    then show ?thesis using db by (simp add: SessionLocal_def)
  next
    case 2
    have "article_jargon (stored s) =
        (if jl = [] then article_jargon d else jargon_without a d @ new_jargon_rows a jl)"
      using 2 save_jargon_rows_returned[OF 2(2)]
      by (simp add: commit_def after_jargon_def pending_jargon_before_jargon jargon_without_def)
    then show ?thesis using db by auto
  qed
qed

lemma jargon_of_replaced:
  "jargon_of a (d\<lparr>article_jargon := jargon_without a d @ new_jargon_rows a jl\<rparr>)
     = new_jargon_rows a jl"
proof -
  have "filter (\<lambda>r. jar_article_id r = a) (new_jargon_rows a jl) = new_jargon_rows a jl"
    using new_jargon_rows_article[of _ a jl] by (simp add: filter_id_conv)
  then show ?thesis
    by (simp add: jargon_of_def jargon_without_def)
qed

lemma jargon_of_cong:
  "article_jargon d' = article_jargon d'' \<Longrightarrow> jargon_of a d' = jargon_of a d''"
  by (simp add: jargon_of_def)

lemma save_jargon_articles:
  "articles (pending (snd (save_jargon env a jl s))) = articles (pending s)"
  by (simp add: save_jargon_def split: option.splits)

lemma after_jargon_articles:
  "articles (pending (after_jargon env a k p jl v s)) = articles (pending (after_veracity env a v s))"
  by (simp add: after_jargon_def after_pro_def after_kid_def save_jargon_articles
      save_summary_articles)

lemma find_Some_id: "find (\<lambda>r. col_id r = a) rows = Some r \<Longrightarrow> col_id r = a"
  by (auto simp: find_Some_iff)

lemma query_article_id: "query_article a s = Some art \<Longrightarrow> col_id (mapped art) = a"
  by (auto simp: query_article_def split: option.splits dest: find_Some_id)

text \<open>What the veracity block does to the article table.\<close>

lemma after_veracity_articles:
  assumes "article_exists a d"
  shows "articles (pending (after_veracity env a v (SessionLocal d))) =
     (if veracity_score v \<noteq> None \<or> claims v \<noteq> []
      then map (\<lambda>r. if col_id r = a then r\<lparr>col_veracity_score := veracity_score v\<rparr> else r)
             (articles d)
      else articles d)"
proof -
  from assms obtain art where art: "query_article a (SessionLocal d) = Some art"
    using query_article_None[of a d] by auto
  then have "col_id (mapped art) = a" by (rule query_article_id)
  then show ?thesis using art
    by (simp add: after_veracity_def update_veracity_def flush_article_def SessionLocal_def)
qed

lemma save_to_database_articles_cases:
  "articles (snd (save_to_database env a k p jl v d)) = articles d
   \<or> articles (snd (save_to_database env a k p jl v d))
       = articles (pending (after_veracity env a v (SessionLocal d)))"
proof (cases "fst (save_to_database env a k p jl v d)")
  case (Inl e)
  then show ?thesis using save_to_database_raises[of env a k p jl v d e] by simp
next
  case (Inr u)
  obtain r s where t: "save_try env a k p jl v (SessionLocal d) = (r, s)" by fastforce
  with Inr have r: "r = Inr ()" by (auto simp: save_to_database_def split: sum.splits)
  have db: "snd (save_to_database env a k p jl v d) = stored s"
    using t r by (simp add: save_to_database_def close_stored)
  from save_try_returns[of env a k p jl v "SessionLocal d"] t r
  have "s = SessionLocal d \<or> s = commit (after_jargon env a k p jl v (SessionLocal d))"
    by auto
  then show ?thesis using db
    by (auto simp: SessionLocal_def commit_def after_jargon_articles)
qed

text \<open>
  No pass writes the \<open>fact_check_claims\<close> column: the claim list goes to the attribute
  \<open>veracity_claims\<close>, which no column backs.
\<close>

lemma claims_column_never_written:
  "map col_fact_check_claims (articles (snd (save_to_database env a k p jl v d)))
     = map col_fact_check_claims (articles d)"
proof -
  have "map col_fact_check_claims (articles (pending (after_veracity env a v (SessionLocal d))))
      = map col_fact_check_claims (articles d)"
    by (simp add: after_veracity_def update_veracity_def flush_article_def SessionLocal_def
        comp_def if_distrib cong: if_cong split: option.splits)
  then show ?thesis
    using save_to_database_articles_cases[of env a k p jl v d] by auto
qed

text \<open>
  The part of the veracity rule that holds, for the score column: it is overwritten when
  the result has a score or a claim, and a result with neither leaves every article row
  as it was.
\<close>

lemma veracity_score_overwritten:
  assumes "article_exists a d" and "\<forall>op. db_fault env op = None"
  shows "articles (snd (save_to_database env a k p jl v d)) =
     (if veracity_score v \<noteq> None \<or> claims v \<noteq> []
      then map (\<lambda>r. if col_id r = a then r\<lparr>col_veracity_score := veracity_score v\<rparr> else r)
             (articles d)
      else articles d)"
  using assms
  by (simp add: save_to_database_committed after_jargon_articles after_veracity_articles)

lemma empty_veracity_keeps_articles:
  assumes "veracity_score v = None" and "claims v = []"
  shows "articles (snd (save_to_database env a k p jl v d)) = articles d"
proof -
  have "articles (pending (after_veracity env a v (SessionLocal d))) = articles d"
    using assms
    by (simp add: after_veracity_def update_veracity_def SessionLocal_def split: option.splits)
  then show ?thesis
    using save_to_database_articles_cases[of env a k p jl v d] by auto
qed

text \<open>
  C7. A pass for article \<open>a1\<close> whose veracity result has score 0 and one claim commits
  the score, and the stored claim list of the article is still empty: the claims and the
  time of the check are assigned to attributes that no column of \<open>Article\<close> backs.
\<close>

theorem veracity_claims_not_stored:
  "claims ex_false_result \<noteq> []
   \<and> fst (save_to_database ex_env ''a1'' None None [] ex_false_result ex_db) = Inr ()
   \<and> map col_veracity_score
        (articles (snd (save_to_database ex_env ''a1'' None None [] ex_false_result ex_db)))
      = [Some 0]
   \<and> map col_fact_check_claims
        (articles (snd (save_to_database ex_env ''a1'' None None [] ex_false_result ex_db)))
      = [[]]"
proof -
  have ok: "fst (save_to_database ex_env ''a1'' None None [] ex_false_result ex_db) = Inr ()"
    using save_to_database_committed[OF ex_env_no_fault ex_db_has_a1(1)] by simp
  have arts: "articles (snd (save_to_database ex_env ''a1'' None None [] ex_false_result ex_db))
      = map (\<lambda>r. if col_id r = ''a1'' then r\<lparr>col_veracity_score := Some 0\<rparr> else r)
          (articles ex_db)"
    using veracity_score_overwritten[OF ex_db_has_a1(1) ex_env_no_fault,
        of None None "[]" ex_false_result]
    by (simp add: ex_false_result_def)
  show ?thesis
    by (simp add: ok arts) (simp add: ex_db_def ex_false_result_def)
qed

section \<open>Properties of the query strategy\<close>

lemma split_not_empty: "split sep s \<noteq> []"
  by (induction s) (auto split: list.splits)

lemma split_first: "split sep s = x # xs \<Longrightarrow> x = takeWhile (\<lambda>c. c \<noteq> sep) s"
  by (induction s arbitrary: x xs) (auto simp: split_not_empty split: list.splits if_splits)

lemma first_sentence_eq: "first_sentence content = take 200 (takeWhile (\<lambda>c. c \<noteq> CHR ''.'') content)"
proof (cases "split (CHR ''.'') content")
  case Nil
  then show ?thesis using split_not_empty[of "CHR ''.''" content] by simp
next
  case (Cons x xs)
  then show ?thesis using split_first[OF Cons] by (simp add: first_sentence_def)
qed

lemma check_claim_calls:
  "calls (snd (check_claim env claim_text language w)) =
     calls w @ (case api_key env of
                  None \<Rightarrow> []
                | Some key \<Rightarrow> if key = [] then [] else [HttpGet key (take 200 claim_text) language])"
  by (simp add: check_claim_def Let_def split: option.splits http_outcome.splits)

lemma check_claim_db:
  "db (snd (check_claim env claim_text language w)) = db w"
  "error_log (snd (check_claim env claim_text language w)) = error_log w"
  by (simp_all add: check_claim_def Let_def split: option.splits http_outcome.splits)

lemma check_claim_no_key_status:
  "api_key env = None \<or> api_key env = Some [] \<Longrightarrow>
   status (fst (check_claim env claim_text language w)) = Some ''no_api_key''"
  by (auto simp: check_claim_def no_api_key_result_def)

lemma process_response_status:
  "status (process_response data) =
     (if get_default (data_claims data) [] = [] then Some ''no_matching_claims''
      else Some ''success'')"
  by (simp add: process_response_def Let_def split: prod.splits)

text \<open>
  The status of a query says "no matching claims" exactly when a key is configured and
  the GET came back with code 200 and no claim.
\<close>

lemma no_matching_claims_iff:
  "status (fst (check_claim env claim_text language w)) = Some ''no_matching_claims'' \<longleftrightarrow>
     (\<exists>key data. api_key env = Some key \<and> key \<noteq> []
        \<and> http_get env (length (calls w)) (take 200 claim_text) = HttpResponse 200 data
        \<and> get_default (data_claims data) [] = [])"
  by (auto simp: check_claim_def Let_def process_response_status no_api_key_result_def
      access_denied_result_def error_result_def split: option.splits http_outcome.splits)

text \<open>
  C4. The GETs one veracity check issues, in order. With a key configured the first
  carries the first 200 characters of the title; a second one follows exactly when the
  first result has status \<open>no_matching_claims\<close> and the content is not empty, and it
  carries the first 200 characters of the content up to its first full stop. There is
  never a third. With no key configured no GET is issued.
\<close>

theorem check_veracity_queries:
  "calls (snd (check_veracity env title content w)) =
     calls w @
     (case api_key env of
        None \<Rightarrow> []
      | Some key \<Rightarrow>
          if key = [] then []
          else HttpGet key (take 200 title) ''en'' #
               (if status (fst (check_claim env title ''en'' w)) = Some ''no_matching_claims''
                   \<and> content \<noteq> []
                then [HttpGet key (take 200 (takeWhile (\<lambda>c. c \<noteq> CHR ''.'') content)) ''en'']
                else []))"
proof -
  obtain r1 w1 where c1: "check_claim env title ''en'' w = (r1, w1)" by fastforce
  have w1: "calls w1 = calls w @ (case api_key env of None \<Rightarrow> []
      | Some key \<Rightarrow> if key = [] then [] else [HttpGet key (take 200 title) ''en''])"
    using check_claim_calls[of env title "''en''" w] c1 by simp
  show ?thesis
  proof (cases "status r1 = Some ''no_matching_claims'' \<and> content \<noteq> []")
    case False
    then show ?thesis using c1 w1
      by (auto simp: check_veracity_def split: option.splits)
  next
    case True
    obtain r2 w2 where c2: "check_claim env (first_sentence content) ''en'' w1 = (r2, w2)"
      by fastforce
    have key: "\<exists>key. api_key env = Some key \<and> key \<noteq> []"
    proof (rule ccontr)
      assume "\<not> (\<exists>key. api_key env = Some key \<and> key \<noteq> [])"
      then have "api_key env = None \<or> api_key env = Some []" by (cases "api_key env") auto
      then have "status r1 = Some ''no_api_key''"
        using check_claim_no_key_status[of env title "''en''" w] c1 by simp
      with True show False by simp
    qed
    have "calls w2 = calls w1 @ (case api_key env of None \<Rightarrow> []
        | Some key \<Rightarrow> if key = [] then [] else
            [HttpGet key (take 200 (first_sentence content)) ''en''])"
      using check_claim_calls[of env "first_sentence content" "''en''" w1] c2 by simp
    then show ?thesis using True c1 c2 w1 key
      by (auto simp: check_veracity_def first_sentence_eq)
  qed
qed

theorem check_veracity_queries_witness:
  "calls (snd (check_veracity ex_env ''Vaccine causes X'' ''Sentence one. Sentence two.'' ex_world))
     = [HttpGet ''key'' ''Vaccine causes X'' ''en'']
   \<and> calls (snd (check_veracity ex_no_match ''Vaccine causes X'' ''Sentence one. Sentence two.''
        ex_world))
     = [HttpGet ''key'' ''Vaccine causes X'' ''en'', HttpGet ''key'' ''Sentence one'' ''en'']
   \<and> calls (snd (check_veracity ex_no_match ''Vaccine causes X'' [] ex_world))
     = [HttpGet ''key'' ''Vaccine causes X'' ''en'']
   \<and> calls (snd (check_veracity ex_no_key ''Vaccine causes X'' ''Sentence one. Sentence two.''
        ex_world)) = []"
proof -
  have s1: "status (fst (check_claim ex_env ''Vaccine causes X'' ''en'' ex_world)) = Some ''success''"
    by (simp add: check_claim_def ex_env_def ex_world_def process_response_def get_default_def
        Let_def ex_claim_def split: prod.splits)
  have s2: "status (fst (check_claim ex_no_match ''Vaccine causes X'' ''en'' ex_world))
      = Some ''no_matching_claims''"
    by (simp add: check_claim_def ex_no_match_def ex_env_def ex_world_def process_response_def
        get_default_def Let_def)
  have k: "api_key ex_env = Some ''key''" "api_key ex_no_match = Some ''key''"
    "api_key ex_no_key = None"
    by (simp_all add: ex_env_def ex_no_match_def ex_no_key_def)
  show ?thesis
    using check_veracity_queries[of ex_env "''Vaccine causes X''" "''Sentence one. Sentence two.''"
        ex_world]
      check_veracity_queries[of ex_no_match "''Vaccine causes X''"
        "''Sentence one. Sentence two.''" ex_world]
      check_veracity_queries[of ex_no_match "''Vaccine causes X''" "[]" ex_world]
      check_veracity_queries[of ex_no_key "''Vaccine causes X''" "''Sentence one. Sentence two.''"
        ex_world]
    by (simp add: s1 s2 k) (simp add: ex_world_def)
qed

section \<open>Properties of the processing of one event\<close>

lemma check_veracity_db:
  "db (snd (check_veracity env title content w)) = db w"
  "error_log (snd (check_veracity env title content w)) = error_log w"
proof -
  obtain r1 w1 where c1: "check_claim env title ''en'' w = (r1, w1)" by fastforce
  obtain r2 w2 where c2: "check_claim env (first_sentence content) ''en'' w1 = (r2, w2)"
    by fastforce
  have "db w1 = db w" "error_log w1 = error_log w"
    using check_claim_db[of env title "''en''" w] c1 by simp_all
  moreover have "db w2 = db w1" "error_log w2 = error_log w1"
    using check_claim_db[of env "first_sentence content" "''en''" w1] c2 by simp_all
  ultimately show "db (snd (check_veracity env title content w)) = db w"
    "error_log (snd (check_veracity env title content w)) = error_log w"
    using c1 c2 by (simp_all add: check_veracity_def)
qed

lemma check_veracity_returns: "\<exists>v. fst (check_veracity env title content w) = Inr v"
  by (simp add: check_veracity_def split: prod.splits)

text \<open>
  A valid event: the four subtasks are dispatched, each result or its default goes to
  \<open>_save_to_database\<close>, and what that call returns or raises is the outcome.
\<close>

lemma process_article_valid:
  assumes "ev_id m = Some article_id" and "article_id \<noteq> []"
    and "ev_content m = Some content" and "content \<noteq> []"
  shows "process_article env m w =
     (let title = get_default (ev_title m) [];
          w3 = dispatched content w;
          saved = save_to_database env article_id (summary_or_null env content ''kid'')
                    (summary_or_null env content ''pro'') (terms_or_empty env content)
                    (veracity_or_neutral env title content w3) (db w)
      in (fst saved, (snd (check_veracity env title content w3))\<lparr>db := snd saved\<rparr>))"
proof -
  let ?title = "get_default (ev_title m) []"
  let ?w3 = "dispatched content w"
  obtain vr w4 where v: "check_veracity env ?title content ?w3 = (vr, w4)" by fastforce
  have db4: "db w4 = db w"
    using check_veracity_db(1)[of env ?title content ?w3] v by (simp add: dispatched_def)
  have js: "extract_jargon env content
        (w\<lparr>calls := calls w @ [GenerateSummary content ''kid'', GenerateSummary content ''pro'']\<rparr>)
      = (Inr (terms_or_empty env content), ?w3)"
    by (simp add: extract_jargon_def terms_or_empty_def dispatched_def Let_def
        split: sum.splits json.splits)
  show ?thesis
    using assms v db4
    by (simp add: process_article_def get_default_def generate_summary_def Let_def js
        summary_or_null_def veracity_or_neutral_def split: sum.splits prod.splits)
qed

lemma process_article_db:
  "fst (process_article env m w) = Inl e \<Longrightarrow>
   db (snd (process_article env m w)) = db w \<and> (\<exists>op. db_fault env op = Some e)"
proof -
  assume raised: "fst (process_article env m w) = Inl e"
  show ?thesis
  proof (cases "get_default (ev_id m) [] = [] \<or> get_default (ev_content m) [] = []")
    case True
    with raised show ?thesis by (simp add: process_article_def Let_def)
  next
    case False
    then obtain a c where m: "ev_id m = Some a" "a \<noteq> []" "ev_content m = Some c" "c \<noteq> []"
      by (cases "ev_id m"; cases "ev_content m") (auto simp: get_default_def)
    show ?thesis
      using raised process_article_valid[OF m, of env w]
        save_to_database_raises[of env a "summary_or_null env c ''kid''" "summary_or_null env c ''pro''"
          "terms_or_empty env c"
          "veracity_or_neutral env (get_default (ev_title m) []) c (dispatched c w)" "db w" e]
      by (simp add: Let_def)
  qed
qed



lemmas run_eval =
  process_article_def get_default_def generate_summary_def extract_jargon_def
  check_veracity_def check_claim_def process_response_def first_review_def rating_eval
  py_round_div_def save_to_database_def save_try_def query_article_def SessionLocal_def
  update_veracity_def flush_article_def save_summary_def save_jargon_def commit_def
  rollback_def close_def dict_get_def or_column_default_def Let_def empty_publisher_def

lemma save_try_commit_fault:
  "query_article a s = Some art \<Longrightarrow> db_fault env Commit = Some e \<Longrightarrow>
   \<exists>e'. fst (save_try env a k p jl v s) = Inl e'"
  by (auto simp: save_try_def split: option.splits prod.splits sum.splits)

lemma save_to_database_commit_fault:
  assumes "article_exists a d" and "db_fault env Commit = Some e"
  shows "\<exists>e'. fst (save_to_database env a k p jl v d) = Inl e'"
proof -
  from assms(1) obtain art where "query_article a (SessionLocal d) = Some art"
    using query_article_None[of a d] by auto
  from save_try_commit_fault[OF this assms(2), of k p jl v]
  show ?thesis by (auto simp: save_to_database_def split: prod.splits sum.splits)
qed

lemma ex_raise_eval:
  "process_article ex_commit_fault ex_event ex_world =
     (Inl (Exception ''connection lost''),
      \<lparr>db = ex_db,
       calls =
         [GenerateSummary ''Sentence one. Sentence two.'' ''kid'',
          GenerateSummary ''Sentence one. Sentence two.'' ''pro'',
          ExtractJargon ''Sentence one. Sentence two.'',
          HttpGet ''key'' ''Vaccine causes X'' ''en''],
       error_log = []\<rparr>)"
  by (simp add: run_eval ex_commit_fault_def ex_env_def ex_event_def ex_world_def ex_db_def
      ex_claim_def)

lemma check_claim_raises_neutral:
  assumes "api_key env = Some key" and "key \<noteq> []"
    and "http_get env (length (calls w)) (take 200 claim_text) = HttpRaises e"
  shows "fst (check_claim env claim_text language w) = error_result"
  using assms by (simp add: check_claim_def Let_def)

lemma check_claim_success:
  assumes "api_key env = Some key" and "key \<noteq> []"
    and "http_get env (length (calls w)) (take 200 claim_text) = HttpResponse 200 data"
  shows "fst (check_claim env claim_text language w) = process_response data"
  using assms by (simp add: check_claim_def Let_def)

lemma veracity_or_neutral_raises:
  assumes "api_key env = Some key" and "key \<noteq> []"
    and "http_get env (length (calls w)) (take 200 title) = HttpRaises e"
  shows "veracity_score (veracity_or_neutral env title content w) = None
     \<and> claims (veracity_or_neutral env title content w) = []"
proof -
  obtain r1 w1 where c1: "check_claim env title ''en'' w = (r1, w1)" by fastforce
  have "r1 = error_result"
    using check_claim_raises_neutral[OF assms, of "''en''"] c1 by simp
  then show ?thesis using c1
    by (simp add: veracity_or_neutral_def check_veracity_def error_result_def)
qed

lemma veracity_or_neutral_success:
  assumes "api_key env = Some key" and "key \<noteq> []"
    and "http_get env (length (calls w)) (take 200 title) = HttpResponse 200 data"
    and "get_default (data_claims data) [] \<noteq> []"
  shows "veracity_or_neutral env title content w = process_response data"
proof -
  obtain r1 w1 where c1: "check_claim env title ''en'' w = (r1, w1)" by fastforce
  have "r1 = process_response data"
    using check_claim_success[OF assms(1-3), of "''en''"] c1 by simp
  then show ?thesis using c1 assms(4)
    by (simp add: veracity_or_neutral_def check_veracity_def process_response_status)
qed

lemma process_response_not_success:
  "status (process_response data) \<noteq> Some ''success'' \<Longrightarrow>
   veracity_score (process_response data) = None \<and> claims (process_response data) = []"
  by (simp add: process_response_def Let_def split: if_splits prod.splits)

lemma check_claim_not_success:
  "status (fst (check_claim env claim_text language w)) \<noteq> Some ''success'' \<Longrightarrow>
   veracity_score (fst (check_claim env claim_text language w)) = None
   \<and> claims (fst (check_claim env claim_text language w)) = []"
  using process_response_not_success
  by (auto simp: check_claim_def Let_def no_api_key_result_def access_denied_result_def
      error_result_def split: option.splits http_outcome.splits if_splits)

lemma veracity_or_neutral_not_success:
  assumes "status (veracity_or_neutral env title content w) \<noteq> Some ''success''"
  shows "veracity_score (veracity_or_neutral env title content w) = None
     \<and> claims (veracity_or_neutral env title content w) = []"
proof -
  obtain r1 w1 where c1: "check_claim env title ''en'' w = (r1, w1)" by fastforce
  obtain r2 w2 where c2: "check_claim env (first_sentence content) ''en'' w1 = (r2, w2)"
    by fastforce
  have n1: "status r1 \<noteq> Some ''success'' \<Longrightarrow> veracity_score r1 = None \<and> claims r1 = []"
    using check_claim_not_success[of env title "''en''" w] c1 by simp
  have n2: "status r2 \<noteq> Some ''success'' \<Longrightarrow> veracity_score r2 = None \<and> claims r2 = []"
    using check_claim_not_success[of env "first_sentence content" "''en''" w1] c2 by simp
  show ?thesis
    using assms c1 c2 n1 n2
    by (auto simp: veracity_or_neutral_def check_veracity_def split: if_splits)
qed

lemma process_article_returns:
  assumes "\<forall>op. db_fault env op = None"
  shows "fst (process_article env m w) = Inr ()"
proof (cases "fst (process_article env m w)")
  case (Inl e)
  then show ?thesis using process_article_db[of env m w e] assms by simp
next
  case (Inr u)
  then show ?thesis by simp
qed

section \<open>The persistence pass against its description\<close>

lemma new_jargon_rows_stored_terms: "new_jargon_rows a jl = stored_terms a jl"
  by (induction a jl rule: new_jargon_rows.induct)
    (auto simp: stored_terms_def dict_get_def or_column_default_def
      split: option.splits json.splits)

lemma update_first_eq:
  "update_first P f rows =
     takeWhile (\<lambda>r. \<not> P r) rows @
     (case dropWhile (\<lambda>r. \<not> P r) rows of [] \<Rightarrow> [] | r # rest \<Rightarrow> f r # rest)"
  by (induction rows) auto

lemma find_None_while:
  "find P rows = None \<Longrightarrow> takeWhile (\<lambda>r. \<not> P r) rows = rows \<and> dropWhile (\<lambda>r. \<not> P r) rows = []"
  by (induction rows) (auto split: if_splits)

lemma find_Some_while:
  "find P rows = Some x \<Longrightarrow> dropWhile (\<lambda>r. \<not> P r) rows \<noteq> []"
  by (induction rows) (auto split: if_splits)

lemma save_summary_eq:
  "save_summary env a m t s =
     (if has_text t
      then (case db_fault env (QuerySummary m) of
              Some e \<Rightarrow> (Inl e, s)
            | None \<Rightarrow>
                (Inr (),
                 s\<lparr>pending := (pending s)\<lparr>article_summaries :=
                      upserted a m t (utcnow env) (article_summaries (pending s))\<rparr>\<rparr>))
      else (Inr (), s))"
proof (cases "has_text t")
  case False
  then show ?thesis by (auto simp: save_summary_def has_text_def split: option.splits)
next
  case True
  then obtain body where t: "t = Some body" "body \<noteq> []"
    by (auto simp: has_text_def split: option.splits)
  have key: "(\<lambda>r. sum_article_id r = a \<and> sum_mode r = m) = same_key a m"
    by (simp add: same_key_def fun_eq_iff)
  show ?thesis
  proof (cases "find (same_key a m) (article_summaries (pending s))")
    case None
    have tw: "takeWhile (\<lambda>r. \<not> same_key a m r) (article_summaries (pending s))
        = article_summaries (pending s)"
      and dw: "dropWhile (\<lambda>r. \<not> same_key a m r) (article_summaries (pending s)) = []"
      using find_None_while[OF None] by blast+
    show ?thesis
      unfolding save_summary_def Let_def key
      using True t None
      by (simp add: upserted_def tw dw split: option.splits)
  next
    case (Some x)
    then obtain r rest
      where dw: "dropWhile (\<lambda>r. \<not> same_key a m r) (article_summaries (pending s)) = r # rest"
      using find_Some_while[OF Some]
      by (cases "dropWhile (\<lambda>r. \<not> same_key a m r) (article_summaries (pending s))") auto
    show ?thesis
      unfolding save_summary_def Let_def key
      using True t Some
      by (simp add: upserted_def update_first_eq dw split: option.splits)
  qed
qed

lemma save_jargon_eq:
  "save_jargon env a jl s =
     (if jl = [] then (Inr (), s)
      else (case db_fault env DeleteJargon of
              Some e \<Rightarrow> (Inl e, s)
            | None \<Rightarrow>
                (Inr (),
                 s\<lparr>pending := (pending s)\<lparr>article_jargon :=
                      filter (\<lambda>r. jar_article_id r \<noteq> a) (article_jargon (pending s))
                      @ stored_terms a jl\<rparr>\<rparr>)))"
  by (simp add: save_jargon_def new_jargon_rows_stored_terms split: option.splits)

lemma upserted_no_text: "\<not> has_text t \<Longrightarrow> upserted a m t now rows = rows"
  by (auto simp: has_text_def upserted_def split: option.splits)

lemma save_summary_uniform:
  "save_summary env a m t s =
     (case (if has_text t then db_fault env (QuerySummary m) else None) of
        Some e \<Rightarrow> (Inl e, s)
      | None \<Rightarrow>
          (Inr (),
           s\<lparr>pending := (pending s)\<lparr>article_summaries :=
                upserted a m t (utcnow env) (article_summaries (pending s))\<rparr>\<rparr>))"
  by (simp add: save_summary_eq upserted_no_text split: option.splits)

lemma save_jargon_uniform:
  "save_jargon env a jl s =
     (case (if jl = [] then None else db_fault env DeleteJargon) of
        Some e \<Rightarrow> (Inl e, s)
      | None \<Rightarrow>
          (Inr (),
           s\<lparr>pending := (pending s)\<lparr>article_jargon :=
                (if jl = [] then article_jargon (pending s)
                 else filter (\<lambda>r. jar_article_id r \<noteq> a) (article_jargon (pending s))
                      @ stored_terms a jl)\<rparr>\<rparr>))"
  by (simp add: save_jargon_eq split: option.splits)

lemma update_veracity_eq:
  assumes "query_article a s = Some art"
  shows "update_veracity env art v s =
     s\<lparr>pending := (pending s)\<lparr>articles := scored a v (articles (pending s))\<rparr>\<rparr>"
  using query_article_id[OF assms]
  by (simp add: update_veracity_def flush_article_def scored_def)

lemma first_fault_contacted:
  "first_fault env (contacted a k p jl d) =
     (case db_fault env QueryArticle of
        Some e \<Rightarrow> Some e
      | None \<Rightarrow>
          if \<not> article_exists a d then None
          else (case (if has_text k then db_fault env (QuerySummary ''kid'') else None) of
                  Some e \<Rightarrow> Some e
                | None \<Rightarrow>
                    (case (if has_text p then db_fault env (QuerySummary ''pro'') else None) of
                       Some e \<Rightarrow> Some e
                     | None \<Rightarrow>
                         (case (if jl = [] then None else db_fault env DeleteJargon) of
                            Some e \<Rightarrow> Some e
                          | None \<Rightarrow> db_fault env Commit))))"
  by (simp add: contacted_def split: option.splits)

text \<open>
  The whole pass: it raises the exception of the first point at which the database
  raises, with the database as it was; otherwise it returns, and the database is the
  described one when the article exists and as it was when it does not.
\<close>

lemma save_to_database_eq:
  "save_to_database env a k p jl v d =
     (case first_fault env (contacted a k p jl d) of
        Some e \<Rightarrow> (Inl e, d)
      | None \<Rightarrow> (Inr (), if article_exists a d then persisted (utcnow env) a k p jl v d else d))"
proof (cases "db_fault env QueryArticle")
  case (Some e)
  then show ?thesis
    by (simp add: first_fault_contacted save_to_database_def save_try_def SessionLocal_def
        close_def rollback_def)
next
  case None
  show ?thesis
  proof (cases "article_exists a d")
    case False
    then have "query_article a (SessionLocal d) = None" by (simp add: query_article_None)
    then show ?thesis using None False
      by (simp add: first_fault_contacted save_to_database_def save_try_def SessionLocal_def
          close_def)
  next
    case True
    then obtain art where art: "query_article a (SessionLocal d) = Some art"
      using query_article_None[of a d] by auto
    show ?thesis
      using None True
      by (simp add: first_fault_contacted save_to_database_def save_try_def art
          update_veracity_eq[OF art] save_summary_uniform save_jargon_uniform
          split: option.splits)
        (simp_all add: SessionLocal_def close_def rollback_def commit_def persisted_def
          jargon_without_def)
  qed
qed

lemma stored_terms_article: "r \<in> set (stored_terms a jl) \<Longrightarrow> jar_article_id r = a"
proof -
  assume "r \<in> set (stored_terms a jl)"
  then obtain item where "r = term_row a item" by (auto simp: stored_terms_def)
  then show ?thesis by (cases item) simp_all
qed

lemma jargon_of_stored_terms:
  "article_jargon d' = jargon_without a d @ stored_terms a jl \<Longrightarrow>
   jargon_of a d' = stored_terms a jl"
proof -
  assume eq: "article_jargon d' = jargon_without a d @ stored_terms a jl"
  have "filter (\<lambda>r. jar_article_id r = a) (stored_terms a jl) = stored_terms a jl"
    using stored_terms_article[of _ a jl] by (simp add: filter_id_conv)
  then show ?thesis by (simp add: eq jargon_of_def jargon_without_def)
qed

lemma save_to_database_jargon:
  "article_jargon (snd (save_to_database env a k p jl v d)) =
     (if jl \<noteq> [] \<and> article_exists a d \<and> first_fault env (contacted a k p jl d) = None
      then jargon_without a d @ stored_terms a jl
      else article_jargon d)"
  by (simp add: save_to_database_eq persisted_def split: option.splits)

text \<open>
  C6. The jargon table after a persistence pass. An empty list leaves it as it was, in
  every pass. A non-empty list, for an existing article and with no error at any point
  the pass contacts, leaves the rows of the other articles and, for this article, exactly
  one row for each storable item of the list, in order: the old rows of the article are
  gone. In every other pass the table is as it was. So the table is always either
  untouched or wholly replaced for the article.
\<close>

theorem jargon_replaced_or_untouched:
  "(jargon_list = [] \<longrightarrow>
      article_jargon (snd (save_to_database env article_id kid_summary pro_summary jargon_list
        veracity_data d)) = article_jargon d)
   \<and> (jargon_list \<noteq> [] \<and> article_exists article_id d
        \<and> first_fault env (contacted article_id kid_summary pro_summary jargon_list d) = None
       \<longrightarrow>
        fst (save_to_database env article_id kid_summary pro_summary jargon_list veracity_data d)
          = Inr ()
        \<and> article_jargon (snd (save_to_database env article_id kid_summary pro_summary
             jargon_list veracity_data d))
           = jargon_without article_id d @ stored_terms article_id jargon_list
        \<and> jargon_of article_id (snd (save_to_database env article_id kid_summary pro_summary
             jargon_list veracity_data d))
           = stored_terms article_id jargon_list)
   \<and> (\<not> article_exists article_id d
        \<or> first_fault env (contacted article_id kid_summary pro_summary jargon_list d) \<noteq> None
       \<longrightarrow>
        article_jargon (snd (save_to_database env article_id kid_summary pro_summary jargon_list
          veracity_data d)) = article_jargon d)
   \<and> (article_jargon (snd (save_to_database env article_id kid_summary pro_summary jargon_list
          veracity_data d)) = article_jargon d
       \<or> article_jargon (snd (save_to_database env article_id kid_summary pro_summary jargon_list
          veracity_data d)) = jargon_without article_id d @ stored_terms article_id jargon_list)"
proof -
  let ?d' = "snd (save_to_database env article_id kid_summary pro_summary jargon_list
        veracity_data d)"
  have table: "article_jargon ?d' =
     (if jargon_list \<noteq> [] \<and> article_exists article_id d
         \<and> first_fault env (contacted article_id kid_summary pro_summary jargon_list d) = None
      then jargon_without article_id d @ stored_terms article_id jargon_list
      else article_jargon d)"
    by (rule save_to_database_jargon)
  have returns: "first_fault env (contacted article_id kid_summary pro_summary jargon_list d) = None
      \<Longrightarrow> fst (save_to_database env article_id kid_summary pro_summary jargon_list
            veracity_data d) = Inr ()"
    by (simp add: save_to_database_eq)
  have rows: "article_jargon ?d' = jargon_without article_id d @ stored_terms article_id jargon_list
      \<Longrightarrow> jargon_of article_id ?d' = stored_terms article_id jargon_list"
    by (rule jargon_of_stored_terms)
  show ?thesis
    using table returns rows by (auto split: if_splits)
qed

theorem jargon_replaced_or_untouched_witness:
  "ex_mixed \<noteq> [] \<and> article_exists ''a1'' ex_db
   \<and> first_fault ex_env (contacted ''a1'' None None ex_mixed ex_db) = None
   \<and> jargon_of ''a1'' ex_db
       = [\<lparr>jar_article_id = ''a1'', jar_term = JStr ''antigen'',
           jar_definition = JStr ''...'', jar_difficulty = JStr ''basic''\<rparr>]
   \<and> jargon_of ''a1''
        (snd (save_to_database ex_env ''a1'' None None ex_mixed neutral_veracity ex_db))
       = [\<lparr>jar_article_id = ''a1'', jar_term = JStr ''mRNA'',
           jar_definition = JStr ''messenger'', jar_difficulty = JStr ''advanced''\<rparr>,
          \<lparr>jar_article_id = ''a1'', jar_term = JStr ''RNA'',
           jar_definition = JStr ''acid'', jar_difficulty = JStr ''medium''\<rparr>,
          \<lparr>jar_article_id = ''a1'', jar_term = JStr ''gene'',
           jar_definition = JStr [], jar_difficulty = JStr ''intermediate''\<rparr>]
   \<and> article_jargon
        (snd (save_to_database ex_env ''a1'' None None ex_mixed neutral_veracity ex_db))
       = [\<lparr>jar_article_id = ''a0'', jar_term = JStr ''quorum'',
           jar_definition = JStr ''...'', jar_difficulty = JStr ''basic''\<rparr>,
          \<lparr>jar_article_id = ''a1'', jar_term = JStr ''mRNA'',
           jar_definition = JStr ''messenger'', jar_difficulty = JStr ''advanced''\<rparr>,
          \<lparr>jar_article_id = ''a1'', jar_term = JStr ''RNA'',
           jar_definition = JStr ''acid'', jar_difficulty = JStr ''medium''\<rparr>,
          \<lparr>jar_article_id = ''a1'', jar_term = JStr ''gene'',
           jar_definition = JStr [], jar_difficulty = JStr ''intermediate''\<rparr>]
   \<and> article_jargon (snd (save_to_database ex_env ''a1'' None None [] neutral_veracity ex_db))
       = article_jargon ex_db
   \<and> first_fault ex_delete_fault (contacted ''a1'' None None ex_mixed ex_db)
       = Some (Exception ''deadlock'')
   \<and> article_jargon
        (snd (save_to_database ex_delete_fault ''a1'' None None ex_mixed neutral_veracity ex_db))
       = article_jargon ex_db"
proof -
  have ne: "ex_mixed \<noteq> []" by (simp add: ex_mixed_def)
  have quiet: "first_fault ex_env (contacted ''a1'' None None ex_mixed ex_db) = None"
    by (simp add: contacted_def ex_db_has_a1 has_text_def ex_env_def)
  have loud: "first_fault ex_delete_fault (contacted ''a1'' None None ex_mixed ex_db)
      = Some (Exception ''deadlock'')"
    by (simp add: contacted_def ex_db_has_a1 has_text_def ex_delete_fault_def ex_env_def ne)
  have terms: "stored_terms ''a1'' ex_mixed
      = [\<lparr>jar_article_id = ''a1'', jar_term = JStr ''mRNA'',
           jar_definition = JStr ''messenger'', jar_difficulty = JStr ''advanced''\<rparr>,
          \<lparr>jar_article_id = ''a1'', jar_term = JStr ''RNA'',
           jar_definition = JStr ''acid'', jar_difficulty = JStr ''medium''\<rparr>,
          \<lparr>jar_article_id = ''a1'', jar_term = JStr ''gene'',
           jar_definition = JStr [], jar_difficulty = JStr ''intermediate''\<rparr>]"
    by (simp add: stored_terms_def ex_mixed_def dict_get_def)
  have replaced: "jargon_of ''a1''
        (snd (save_to_database ex_env ''a1'' None None ex_mixed neutral_veracity ex_db))
       = stored_terms ''a1'' ex_mixed"
    "article_jargon
        (snd (save_to_database ex_env ''a1'' None None ex_mixed neutral_veracity ex_db))
       = jargon_without ''a1'' ex_db @ stored_terms ''a1'' ex_mixed"
    using jargon_replaced_or_untouched[of ex_mixed ex_env "''a1''" None None neutral_veracity
        ex_db] ne quiet ex_db_has_a1(1)
    by blast+
  have empty: "article_jargon
        (snd (save_to_database ex_env ''a1'' None None [] neutral_veracity ex_db))
       = article_jargon ex_db"
    using jargon_replaced_or_untouched[of "[]" ex_env "''a1''" None None neutral_veracity ex_db]
    by blast
  have failed: "article_jargon
        (snd (save_to_database ex_delete_fault ''a1'' None None ex_mixed neutral_veracity ex_db))
       = article_jargon ex_db"
    using jargon_replaced_or_untouched[of ex_mixed ex_delete_fault "''a1''" None None
        neutral_veracity ex_db] loud
    by simp
  show ?thesis
    using ne quiet loud ex_db_has_a1(1) empty failed
    by (simp add: replaced terms jargon_ex_db)
qed

lemma first_fault_is_fault: "first_fault env ops = Some e \<Longrightarrow> \<exists>op \<in> set ops. db_fault env op = Some e"
  by (induction ops) (auto split: option.splits)

lemma process_article_outcome:
  assumes "ev_id m = Some article_id" and "article_id \<noteq> []"
    and "ev_content m = Some content" and "content \<noteq> []"
  shows "fst (process_article env m w) =
     (case first_fault env
             (contacted article_id (summary_or_null env content ''kid'')
                (summary_or_null env content ''pro'') (terms_or_empty env content) (db w)) of
        None \<Rightarrow> Inr ()
      | Some e \<Rightarrow> Inl e)"
  using process_article_valid[OF assms, of env w]
  by (simp add: Let_def save_to_database_eq split: option.splits)

text \<open>
  C8. A pass raises exactly when the database raises at one of the points the pass
  contacts (the lookup of the article, the SELECT of a summary, the DELETE of the terms,
  the commit), and then it raises the exception of the first such point and the
  committed database is the one from before the pass: no write of the pass is kept, and
  what earlier passes committed stands. For an event, the exception leaves
  \<open>process_article\<close> with the database unchanged, and the loop logs it and goes on with
  the next message.
\<close>

theorem persistence_error_rolled_back:
  "(\<forall>e. first_fault env (contacted article_id kid_summary pro_summary jargon_list d) = Some e
        \<longrightarrow> save_to_database env article_id kid_summary pro_summary jargon_list veracity_data d
            = (Inl e, d))
   \<and> (first_fault env (contacted article_id kid_summary pro_summary jargon_list d) = None
        \<longrightarrow> fst (save_to_database env article_id kid_summary pro_summary jargon_list
                 veracity_data d) = Inr ())
   \<and> (\<forall>e. fst (save_to_database env article_id kid_summary pro_summary jargon_list
               veracity_data d) = Inl e
        \<longrightarrow> snd (save_to_database env article_id kid_summary pro_summary jargon_list
                 veracity_data d) = d
            \<and> (\<exists>op. db_fault env op = Some e))
   \<and> (\<forall>a c. ev_id m = Some a \<and> a \<noteq> [] \<and> ev_content m = Some c \<and> c \<noteq> []
        \<longrightarrow> fst (process_article env m w) =
              (case first_fault env
                      (contacted a (summary_or_null env c ''kid'') (summary_or_null env c ''pro'')
                         (terms_or_empty env c) (db w)) of
                 None \<Rightarrow> Inr ()
               | Some e \<Rightarrow> Inl e))
   \<and> (\<forall>e. fst (process_article env m w) = Inl e
        \<longrightarrow> db (snd (process_article env m w)) = db w
            \<and> (\<not> stop_called env \<longrightarrow>
                 start ((m, env) # rest) w =
                   start rest ((snd (process_article env m w))
                     \<lparr>error_log := error_log (snd (process_article env m w)) @ [e]\<rparr>)))"
proof -
  have loop: "start ((m, env) # rest) w =
      start rest ((snd (process_article env m w))
        \<lparr>error_log := error_log (snd (process_article env m w)) @ [e]\<rparr>)"
    if "fst (process_article env m w) = Inl e" and "\<not> stop_called env" for e
    using that by (cases "process_article env m w") simp
  have raised: "save_to_database env article_id kid_summary pro_summary jargon_list
        veracity_data d = (Inl e, d)"
    if "first_fault env (contacted article_id kid_summary pro_summary jargon_list d) = Some e"
    for e
    using that by (simp add: save_to_database_eq)
  have returned: "fst (save_to_database env article_id kid_summary pro_summary jargon_list
        veracity_data d) = Inr ()"
    if "first_fault env (contacted article_id kid_summary pro_summary jargon_list d) = None"
    using that by (simp add: save_to_database_eq)
  have unchanged: "snd (save_to_database env article_id kid_summary pro_summary jargon_list
        veracity_data d) = d \<and> (\<exists>op. db_fault env op = Some e)"
    if "fst (save_to_database env article_id kid_summary pro_summary jargon_list
        veracity_data d) = Inl e" for e
    using that by (rule save_to_database_raises)
  have event: "fst (process_article env m w) =
      (case first_fault env
              (contacted a (summary_or_null env c ''kid'') (summary_or_null env c ''pro'')
                 (terms_or_empty env c) (db w)) of
         None \<Rightarrow> Inr ()
       | Some e \<Rightarrow> Inl e)"
    if "ev_id m = Some a \<and> a \<noteq> [] \<and> ev_content m = Some c \<and> c \<noteq> []" for a c
    using that process_article_outcome[of m a c env w] by simp
  have kept: "db (snd (process_article env m w)) = db w"
    if "fst (process_article env m w) = Inl e" for e
    using that process_article_db[of env m w e] by simp
  show ?thesis
    using loop raised returned unchanged event kept by blast
qed

theorem persistence_error_rolled_back_witness:
  "first_fault ex_delete_fault
      (contacted ''a1'' (Some ''kid summary'') (Some ''pro summary'') ex_terms ex_db)
     = Some (Exception ''deadlock'')
   \<and> save_to_database ex_delete_fault ''a1'' (Some ''kid summary'') (Some ''pro summary'')
        ex_terms ex_false_result ex_db = (Inl (Exception ''deadlock''), ex_db)
   \<and> save_to_database ex_select_fault ''a1'' (Some ''kid summary'') (Some ''pro summary'')
        ex_terms ex_false_result ex_db = (Inl (Exception ''timeout''), ex_db)
   \<and> fst (process_article ex_delete_fault ex_event ex_world) = Inl (Exception ''deadlock'')
   \<and> db (snd (process_article ex_delete_fault ex_event ex_world)) = ex_db
   \<and> fst (process_article ex_commit_fault ex_event ex_world) = Inl (Exception ''connection lost'')
   \<and> db (snd (process_article ex_commit_fault ex_event ex_world)) = ex_db
   \<and> error_log (start [(ex_event, ex_commit_fault), (ex_event, ex_env)] ex_world)
       = [Exception ''connection lost'']
   \<and> article_summaries (db (start [(ex_event, ex_commit_fault), (ex_event, ex_env)] ex_world))
       = [\<lparr>sum_article_id = ''a1'', sum_mode = ''kid'', sum_summary = ''kid summary'',
           sum_generated_at = 7\<rparr>,
          \<lparr>sum_article_id = ''a1'', sum_mode = ''pro'', sum_summary = ''pro summary'',
           sum_generated_at = 7\<rparr>]"
proof -
  have terms: "ex_terms \<noteq> []" by (simp add: ex_terms_def)
  have deadlock: "first_fault ex_delete_fault
      (contacted ''a1'' (Some ''kid summary'') (Some ''pro summary'') ex_terms ex_db)
     = Some (Exception ''deadlock'')"
    by (simp add: contacted_def ex_db_has_a1 has_text_def ex_delete_fault_def ex_env_def terms)
  have timeout: "first_fault ex_select_fault
      (contacted ''a1'' (Some ''kid summary'') (Some ''pro summary'') ex_terms ex_db)
     = Some (Exception ''timeout'')"
    by (simp add: contacted_def ex_db_has_a1 has_text_def ex_select_fault_def ex_env_def terms)
  have pass1: "save_to_database ex_delete_fault ''a1'' (Some ''kid summary'')
        (Some ''pro summary'') ex_terms ex_false_result ex_db = (Inl (Exception ''deadlock''), ex_db)"
    using persistence_error_rolled_back[of ex_delete_fault "''a1''" "Some ''kid summary''"
        "Some ''pro summary''" ex_terms ex_db ex_false_result] deadlock
    by blast
  have pass2: "save_to_database ex_select_fault ''a1'' (Some ''kid summary'')
        (Some ''pro summary'') ex_terms ex_false_result ex_db = (Inl (Exception ''timeout''), ex_db)"
    using persistence_error_rolled_back[of ex_select_fault "''a1''" "Some ''kid summary''"
        "Some ''pro summary''" ex_terms ex_db ex_false_result] timeout
    by blast
  have valid: "ev_id ex_event = Some ''a1'' \<and> ''a1'' \<noteq> []
      \<and> ev_content ex_event = Some ''Sentence one. Sentence two.''
      \<and> ''Sentence one. Sentence two.'' \<noteq> []"
    by (simp add: ex_event_def)
  have given: "summary_or_null ex_delete_fault ''Sentence one. Sentence two.'' ''kid''
        = Some ''kid summary''"
    "summary_or_null ex_delete_fault ''Sentence one. Sentence two.'' ''pro''
        = Some ''pro summary''"
    "terms_or_empty ex_delete_fault ''Sentence one. Sentence two.'' = ex_terms"
    by (simp_all add: summary_or_null_def terms_or_empty_def ex_delete_fault_def ex_env_def
        ex_terms_def)
  have event1: "fst (process_article ex_delete_fault ex_event ex_world)
      = Inl (Exception ''deadlock'')"
  proof -
    have "fst (process_article ex_delete_fault ex_event ex_world) =
        (case first_fault ex_delete_fault
                (contacted ''a1'' (summary_or_null ex_delete_fault
                     ''Sentence one. Sentence two.'' ''kid'')
                   (summary_or_null ex_delete_fault ''Sentence one. Sentence two.'' ''pro'')
                   (terms_or_empty ex_delete_fault ''Sentence one. Sentence two.'')
                   (db ex_world)) of
           None \<Rightarrow> Inr ()
         | Some e \<Rightarrow> Inl e)"
      using persistence_error_rolled_back[of ex_delete_fault _ _ _ _ _ _ ex_event ex_world]
        valid by blast
    then show ?thesis using deadlock by (simp add: given ex_world_def)
  qed
  have same1: "db (snd (process_article ex_delete_fault ex_event ex_world)) = db ex_world"
    using persistence_error_rolled_back[of ex_delete_fault _ _ _ _ _ _ ex_event ex_world]
      event1 by blast
  have raised: "fst (process_article ex_commit_fault ex_event ex_world)
      = Inl (Exception ''connection lost'')"
    by (simp add: ex_raise_eval)
  have run: "\<not> stop_called ex_commit_fault"
    by (simp add: ex_commit_fault_def ex_env_def)
  have next_event: "start [(ex_event, ex_commit_fault), (ex_event, ex_env)] ex_world =
      start [(ex_event, ex_env)]
        ((snd (process_article ex_commit_fault ex_event ex_world))
           \<lparr>error_log := error_log (snd (process_article ex_commit_fault ex_event ex_world))
              @ [Exception ''connection lost'']\<rparr>)"
    and same: "db (snd (process_article ex_commit_fault ex_event ex_world)) = db ex_world"
    using persistence_error_rolled_back[of ex_commit_fault _ _ _ _ _ _ ex_event ex_world
        "[(ex_event, ex_env)]"] raised run
    by blast+
  have second: "start [(ex_event, ex_env)]
        ((snd (process_article ex_commit_fault ex_event ex_world))
           \<lparr>error_log := error_log (snd (process_article ex_commit_fault ex_event ex_world))
              @ [Exception ''connection lost'']\<rparr>)
      = \<lparr>db = ex_db
            \<lparr>articles := [\<lparr>col_id = ''a1'', col_title = ''Vaccine causes X'',
                            col_content = ''Sentence one. Sentence two.'',
                            col_veracity_score = Some 0, col_fact_check_claims = []\<rparr>],
             article_summaries :=
               [\<lparr>sum_article_id = ''a1'', sum_mode = ''kid'', sum_summary = ''kid summary'',
                 sum_generated_at = 7\<rparr>,
                \<lparr>sum_article_id = ''a1'', sum_mode = ''pro'', sum_summary = ''pro summary'',
                 sum_generated_at = 7\<rparr>],
             article_jargon :=
               [\<lparr>jar_article_id = ''a0'', jar_term = JStr ''quorum'',
                 jar_definition = JStr ''...'', jar_difficulty = JStr ''basic''\<rparr>,
                \<lparr>jar_article_id = ''a1'', jar_term = JStr ''mRNA'',
                 jar_definition = JStr ''...'', jar_difficulty = JStr ''advanced''\<rparr>]\<rparr>,
         calls =
           [GenerateSummary ''Sentence one. Sentence two.'' ''kid'',
            GenerateSummary ''Sentence one. Sentence two.'' ''pro'',
            ExtractJargon ''Sentence one. Sentence two.'',
            HttpGet ''key'' ''Vaccine causes X'' ''en'',
            GenerateSummary ''Sentence one. Sentence two.'' ''kid'',
            GenerateSummary ''Sentence one. Sentence two.'' ''pro'',
            ExtractJargon ''Sentence one. Sentence two.'',
            HttpGet ''key'' ''Vaccine causes X'' ''en''],
         error_log = [Exception ''connection lost'']\<rparr>"
    by (simp add: ex_raise_eval)
      (simp add: run_eval ex_env_def ex_event_def ex_db_def ex_claim_def)
  note final = trans[OF next_event second]
  show ?thesis
    unfolding final using raised same deadlock pass1 pass2 event1 same1
    by (simp add: ex_world_def)
qed

lemma veracity_or_neutral_fallback:
  assumes "api_key env = Some key" and "key \<noteq> []" and "content \<noteq> []"
    and "http_get env (length (calls w)) (take 200 title) = HttpResponse 200 data"
    and "get_default (data_claims data) [] = []"
    and "http_get env (length (calls w) + 1)
           (take 200 (takeWhile (\<lambda>c. c \<noteq> CHR ''.'') content)) = HttpResponse 200 data2"
  shows "veracity_or_neutral env title content w = process_response data2"
proof -
  obtain r1 w1 where c1: "check_claim env title ''en'' w = (r1, w1)" by fastforce
  have r1: "r1 = process_response data"
    using check_claim_success[OF assms(1,2,4), of "''en''"] c1 by simp
  have w1: "length (calls w1) = length (calls w) + 1"
    using check_claim_calls[of env title "''en''" w] c1 assms(1,2) by simp
  have query: "take 200 (first_sentence content)
      = take 200 (takeWhile (\<lambda>c. c \<noteq> CHR ''.'') content)"
    by (simp add: first_sentence_eq)
  have "fst (check_claim env (first_sentence content) ''en'' w1) = process_response data2"
    using check_claim_success[OF assms(1,2), of w1 "first_sentence content" data2 "''en''"]
      assms(6) w1 query by simp
  then show ?thesis using c1 r1 assms(3,5)
    by (cases "check_claim env (first_sentence content) ''en'' w1")
      (simp add: veracity_or_neutral_def check_veracity_def process_response_status)
qed

text \<open>
  The isolation of the subtasks, for an event with an id and a content: four values are
  handed to \<open>_save_to_database\<close>, one per subtask. The value of a subtask whose call
  raises is its neutral default (no summary, no term, a veracity result with null score
  and no claim, as is every veracity result whose status is not \<open>success\<close>); the value
  of a subtask whose call returns is what it returned, whatever the other three did. The
  event raises only when the database does, and otherwise the committed database is the
  described one for the four values.
\<close>

lemma subtask_failure_isolated:
  assumes "ev_id m = Some article_id" and "article_id \<noteq> []"
    and "ev_content m = Some content" and "content \<noteq> []"
  shows "\<exists>kid_summary pro_summary jargon_list veracity_data.
     process_article env m w =
       (case first_fault env
               (contacted article_id kid_summary pro_summary jargon_list (db w)) of
          Some e \<Rightarrow>
            (Inl e,
             snd (check_veracity env (get_default (ev_title m) []) content
                    (dispatched content w)))
        | None \<Rightarrow>
            (Inr (),
             (snd (check_veracity env (get_default (ev_title m) []) content
                     (dispatched content w)))
               \<lparr>db := (if article_exists article_id (db w)
                        then persisted (utcnow env) article_id kid_summary pro_summary
                               jargon_list veracity_data (db w)
                        else db w)\<rparr>))
     \<and> (\<forall>e. gemini_generate_summary env content ''kid'' = Inl e \<longrightarrow> kid_summary = None)
     \<and> (\<forall>s. gemini_generate_summary env content ''kid'' = Inr s \<longrightarrow> kid_summary = Some s)
     \<and> (\<forall>e. gemini_generate_summary env content ''pro'' = Inl e \<longrightarrow> pro_summary = None)
     \<and> (\<forall>s. gemini_generate_summary env content ''pro'' = Inr s \<longrightarrow> pro_summary = Some s)
     \<and> (\<forall>e. gemini_extract_jargon env content = Inl e \<longrightarrow> jargon_list = [])
     \<and> (\<forall>terms. gemini_extract_jargon env content = Inr (JList terms) \<longrightarrow> jargon_list = terms)
     \<and> (\<forall>key e. api_key env = Some key \<and> key \<noteq> []
           \<and> http_get env (length (calls w) + 3) (take 200 (get_default (ev_title m) []))
               = HttpRaises e
           \<longrightarrow> veracity_score veracity_data = None \<and> claims veracity_data = [])
     \<and> (\<forall>key data. api_key env = Some key \<and> key \<noteq> []
           \<and> http_get env (length (calls w) + 3) (take 200 (get_default (ev_title m) []))
               = HttpResponse 200 data
           \<and> get_default (data_claims data) [] \<noteq> []
           \<longrightarrow> veracity_data = process_response data)
     \<and> (\<forall>key data data2. api_key env = Some key \<and> key \<noteq> []
           \<and> http_get env (length (calls w) + 3) (take 200 (get_default (ev_title m) []))
               = HttpResponse 200 data
           \<and> get_default (data_claims data) [] = []
           \<and> http_get env (length (calls w) + 4)
               (take 200 (takeWhile (\<lambda>c. c \<noteq> CHR ''.'') content)) = HttpResponse 200 data2
           \<longrightarrow> veracity_data = process_response data2)
     \<and> (status veracity_data \<noteq> Some ''success'' \<longrightarrow>
          veracity_score veracity_data = None \<and> claims veracity_data = [])"
proof -
  let ?title = "get_default (ev_title m) []"
  let ?w3 = "dispatched content w"
  let ?W = "snd (check_veracity env ?title content ?w3)"
  let ?k = "summary_or_null env content ''kid''"
  let ?p = "summary_or_null env content ''pro''"
  let ?j = "terms_or_empty env content"
  let ?v = "veracity_or_neutral env ?title content ?w3"
  have len: "length (calls ?w3) = length (calls w) + 3"
    by (simp add: dispatched_def)
  have same: "?W\<lparr>db := db w\<rparr> = ?W"
    using check_veracity_db(1)[of env ?title content ?w3] by (simp add: dispatched_def)
  have run: "process_article env m w =
       (case first_fault env (contacted article_id ?k ?p ?j (db w)) of
          Some e \<Rightarrow> (Inl e, ?W)
        | None \<Rightarrow>
            (Inr (),
             ?W\<lparr>db := (if article_exists article_id (db w)
                        then persisted (utcnow env) article_id ?k ?p ?j ?v (db w)
                        else db w)\<rparr>))"
    using process_article_valid[OF assms, of env w] same
    by (simp add: Let_def save_to_database_eq split: option.splits)
  have k: "(\<forall>e. gemini_generate_summary env content ''kid'' = Inl e \<longrightarrow> ?k = None)
      \<and> (\<forall>s. gemini_generate_summary env content ''kid'' = Inr s \<longrightarrow> ?k = Some s)"
    by (simp add: summary_or_null_def)
  have p: "(\<forall>e. gemini_generate_summary env content ''pro'' = Inl e \<longrightarrow> ?p = None)
      \<and> (\<forall>s. gemini_generate_summary env content ''pro'' = Inr s \<longrightarrow> ?p = Some s)"
    by (simp add: summary_or_null_def)
  have j: "(\<forall>e. gemini_extract_jargon env content = Inl e \<longrightarrow> ?j = [])
      \<and> (\<forall>terms. gemini_extract_jargon env content = Inr (JList terms) \<longrightarrow> ?j = terms)"
    by (simp add: terms_or_empty_def)
  have v1: "\<forall>key e. api_key env = Some key \<and> key \<noteq> []
           \<and> http_get env (length (calls w) + 3) (take 200 ?title) = HttpRaises e
           \<longrightarrow> veracity_score ?v = None \<and> claims ?v = []"
    using veracity_or_neutral_raises[of env _ ?w3 ?title _ content] len by auto
  have v2: "\<forall>key data. api_key env = Some key \<and> key \<noteq> []
           \<and> http_get env (length (calls w) + 3) (take 200 ?title) = HttpResponse 200 data
           \<and> get_default (data_claims data) [] \<noteq> []
           \<longrightarrow> ?v = process_response data"
    using veracity_or_neutral_success[of env _ ?w3 ?title _ content] len by auto
  have v3: "status ?v \<noteq> Some ''success'' \<longrightarrow> veracity_score ?v = None \<and> claims ?v = []"
    using veracity_or_neutral_not_success[of env ?title content ?w3] by simp
  have v4: "\<forall>key data data2. api_key env = Some key \<and> key \<noteq> []
           \<and> http_get env (length (calls w) + 3) (take 200 ?title) = HttpResponse 200 data
           \<and> get_default (data_claims data) [] = []
           \<and> http_get env (length (calls w) + 4)
               (take 200 (takeWhile (\<lambda>c. c \<noteq> CHR ''.'') content)) = HttpResponse 200 data2
           \<longrightarrow> ?v = process_response data2"
    using veracity_or_neutral_fallback[of env _ content ?w3 ?title] len assms(4)
    by (auto simp: add.commute)
  show ?thesis
    apply (rule exI[of _ ?k])
    apply (rule exI[of _ ?p])
    apply (rule exI[of _ ?j])
    apply (rule exI[of _ ?v])
    using run k p j v1 v2 v3 v4
    apply (intro conjI)
    apply blast+
    done
qed

text \<open>
  C2. Article \<open>a1\<close> is stored with no summary, one term and an empty claim list. Its
  event is processed while the term extraction raises (and, in a second run, while the
  kid summary raises) and the other subtasks succeed, the claim search returning one claim
  rated \<open>False\<close>. The event ends normally and the pass commits: the summaries that were
  produced and the score 0 are stored, the terms are untouched when the extraction raised
  and replaced when it returned. But the veracity result handed to the pass has one claim,
  and the stored claim list of the article is still empty.
\<close>

theorem isolated_failure_drops_veracity_claims:
  "gemini_extract_jargon ex_extractor_down ''Sentence one. Sentence two.''
     = Inl (Exception ''extractor down'')
   \<and> veracity_or_neutral ex_extractor_down ''Vaccine causes X'' ''Sentence one. Sentence two.''
        (dispatched ''Sentence one. Sentence two.'' ex_world) = ex_false_result
   \<and> claims ex_false_result = [process_one (ex_claim ''False'')]
   \<and> process_article ex_extractor_down ex_event ex_world =
       (Inr (),
        \<lparr>db =
           \<lparr>articles =
              [\<lparr>col_id = ''a1'', col_title = ''Vaccine causes X'',
                col_content = ''Sentence one. Sentence two.'',
                col_veracity_score = Some 0, col_fact_check_claims = []\<rparr>],
            article_summaries =
              [\<lparr>sum_article_id = ''a1'', sum_mode = ''kid'', sum_summary = ''kid summary'',
                sum_generated_at = 7\<rparr>,
               \<lparr>sum_article_id = ''a1'', sum_mode = ''pro'', sum_summary = ''pro summary'',
                sum_generated_at = 7\<rparr>],
            article_jargon =
              [\<lparr>jar_article_id = ''a1'', jar_term = JStr ''antigen'',
                jar_definition = JStr ''...'', jar_difficulty = JStr ''basic''\<rparr>,
               \<lparr>jar_article_id = ''a0'', jar_term = JStr ''quorum'',
                jar_definition = JStr ''...'', jar_difficulty = JStr ''basic''\<rparr>]\<rparr>,
         calls =
           [GenerateSummary ''Sentence one. Sentence two.'' ''kid'',
            GenerateSummary ''Sentence one. Sentence two.'' ''pro'',
            ExtractJargon ''Sentence one. Sentence two.'',
            HttpGet ''key'' ''Vaccine causes X'' ''en''],
         error_log = []\<rparr>)
   \<and> gemini_generate_summary ex_kid_down ''Sentence one. Sentence two.'' ''kid''
       = Inl (Exception ''model overloaded'')
   \<and> veracity_or_neutral ex_kid_down ''Vaccine causes X'' ''Sentence one. Sentence two.''
        (dispatched ''Sentence one. Sentence two.'' ex_world) = ex_false_result
   \<and> process_article ex_kid_down ex_event ex_world =
       (Inr (),
        \<lparr>db =
           \<lparr>articles =
              [\<lparr>col_id = ''a1'', col_title = ''Vaccine causes X'',
                col_content = ''Sentence one. Sentence two.'',
                col_veracity_score = Some 0, col_fact_check_claims = []\<rparr>],
            article_summaries =
              [\<lparr>sum_article_id = ''a1'', sum_mode = ''pro'', sum_summary = ''pro summary'',
                sum_generated_at = 7\<rparr>],
            article_jargon =
              [\<lparr>jar_article_id = ''a0'', jar_term = JStr ''quorum'',
                jar_definition = JStr ''...'', jar_difficulty = JStr ''basic''\<rparr>,
               \<lparr>jar_article_id = ''a1'', jar_term = JStr ''mRNA'',
                jar_definition = JStr ''...'', jar_difficulty = JStr ''advanced''\<rparr>]\<rparr>,
         calls =
           [GenerateSummary ''Sentence one. Sentence two.'' ''kid'',
            GenerateSummary ''Sentence one. Sentence two.'' ''pro'',
            ExtractJargon ''Sentence one. Sentence two.'',
            HttpGet ''key'' ''Vaccine causes X'' ''en''],
         error_log = []\<rparr>)"
proof -
  have raises: "gemini_extract_jargon ex_extractor_down ''Sentence one. Sentence two.''
      = Inl (Exception ''extractor down'')"
    "gemini_generate_summary ex_kid_down ''Sentence one. Sentence two.'' ''kid''
      = Inl (Exception ''model overloaded'')"
    by (simp_all add: ex_extractor_down_def ex_kid_down_def ex_env_def)
  have result: "veracity_or_neutral ex_extractor_down ''Vaccine causes X''
        ''Sentence one. Sentence two.'' (dispatched ''Sentence one. Sentence two.'' ex_world)
      = ex_false_result"
    "veracity_or_neutral ex_kid_down ''Vaccine causes X''
        ''Sentence one. Sentence two.'' (dispatched ''Sentence one. Sentence two.'' ex_world)
      = ex_false_result"
    by (simp_all add: veracity_or_neutral_def dispatched_def run_eval ex_extractor_down_def
        ex_kid_down_def ex_env_def ex_world_def ex_claim_def ex_false_result_def
        process_one_def)
  have one: "claims ex_false_result = [process_one (ex_claim ''False'')]"
    by (simp add: ex_false_result_def)
  have first_run: "process_article ex_extractor_down ex_event ex_world =
       (Inr (),
        \<lparr>db =
           \<lparr>articles =
              [\<lparr>col_id = ''a1'', col_title = ''Vaccine causes X'',
                col_content = ''Sentence one. Sentence two.'',
                col_veracity_score = Some 0, col_fact_check_claims = []\<rparr>],
            article_summaries =
              [\<lparr>sum_article_id = ''a1'', sum_mode = ''kid'', sum_summary = ''kid summary'',
                sum_generated_at = 7\<rparr>,
               \<lparr>sum_article_id = ''a1'', sum_mode = ''pro'', sum_summary = ''pro summary'',
                sum_generated_at = 7\<rparr>],
            article_jargon =
              [\<lparr>jar_article_id = ''a1'', jar_term = JStr ''antigen'',
                jar_definition = JStr ''...'', jar_difficulty = JStr ''basic''\<rparr>,
               \<lparr>jar_article_id = ''a0'', jar_term = JStr ''quorum'',
                jar_definition = JStr ''...'', jar_difficulty = JStr ''basic''\<rparr>]\<rparr>,
         calls =
           [GenerateSummary ''Sentence one. Sentence two.'' ''kid'',
            GenerateSummary ''Sentence one. Sentence two.'' ''pro'',
            ExtractJargon ''Sentence one. Sentence two.'',
            HttpGet ''key'' ''Vaccine causes X'' ''en''],
         error_log = []\<rparr>)"
    by (simp add: run_eval ex_extractor_down_def ex_env_def ex_event_def ex_world_def ex_db_def
        ex_claim_def)
  have second_run: "process_article ex_kid_down ex_event ex_world =
       (Inr (),
        \<lparr>db =
           \<lparr>articles =
              [\<lparr>col_id = ''a1'', col_title = ''Vaccine causes X'',
                col_content = ''Sentence one. Sentence two.'',
                col_veracity_score = Some 0, col_fact_check_claims = []\<rparr>],
            article_summaries =
              [\<lparr>sum_article_id = ''a1'', sum_mode = ''pro'', sum_summary = ''pro summary'',
                sum_generated_at = 7\<rparr>],
            article_jargon =
              [\<lparr>jar_article_id = ''a0'', jar_term = JStr ''quorum'',
                jar_definition = JStr ''...'', jar_difficulty = JStr ''basic''\<rparr>,
               \<lparr>jar_article_id = ''a1'', jar_term = JStr ''mRNA'',
                jar_definition = JStr ''...'', jar_difficulty = JStr ''advanced''\<rparr>]\<rparr>,
         calls =
           [GenerateSummary ''Sentence one. Sentence two.'' ''kid'',
            GenerateSummary ''Sentence one. Sentence two.'' ''pro'',
            ExtractJargon ''Sentence one. Sentence two.'',
            HttpGet ''key'' ''Vaccine causes X'' ''en''],
         error_log = []\<rparr>)"
    by (simp add: run_eval ex_kid_down_def ex_env_def ex_event_def ex_world_def ex_db_def
        ex_claim_def)
  show ?thesis
    using raises result one first_run second_run by (intro conjI)
qed

end
